theory Spec2Isabelle
  imports Main "HOL-Library.AList"
begin

section \<open>JavaScript values\<close>

text \<open>
  The two source files are JavaScript: the module of the hook \<^verbatim>\<open>usePatterns\<close>, which
  selects template parts and patterns from the data store, and the transform table of
  the quote block.
  They work on untyped values, so the embedding has one type of values. Numbers are
  integers (ids, lengths; no fractions, no NaN as a stored value), strings are lists of
  8-bit characters, an object is the list of its own properties in insertion order
  (the first entry for a key is the property), a \<^verbatim>\<open>Map\<close> is the list of its entries.

  \<^verbatim>\<open>const EMPTY_PATTERN_LIST = [];\<close> is one array object, created once and shared by
  every call; it is never written to. It has a constructor of its own so that being
  \<^emph>\<open>that\<close> array (reference equality) can be told apart from being some empty array.
\<close>

datatype jsval =
    JUndefined
  | JNull
  | JBool bool
  | JNum int
  | JStr string
  | JArr "jsval list"
  | JObj "(string \<times> jsval) list"
  | JMap "(jsval \<times> jsval) list"
  | EMPTY_PATTERN_LIST

text \<open>
  A JavaScript expression either has a value or throws. \<open>TypeError\<close> is what reading a
  property of \<^verbatim>\<open>undefined\<close>/\<^verbatim>\<open>null\<close>, calling something that is not a function, or
  spreading something that is not iterable throws. \<open>Unsupported\<close> marks the few places
  where JavaScript goes on (string-to-number conversion, string conversion of objects)
  and this embedding does not follow it.
\<close>

datatype error = TypeError | Unsupported

type_synonym 'a result = "error + 'a"

definition bindR :: "'a result \<Rightarrow> ('a \<Rightarrow> 'b result) \<Rightarrow> 'b result" where
  "bindR m f = (case m of Inl e \<Rightarrow> Inl e | Inr x \<Rightarrow> f x)"

fun truthy :: "jsval \<Rightarrow> bool" where
  "truthy JUndefined = False"
| "truthy JNull = False"
| "truthy (JBool b) = b"
| "truthy (JNum n) = (n \<noteq> 0)"
| "truthy (JStr s) = (s \<noteq> [])"
| "truthy _ = True"

fun nullish :: "jsval \<Rightarrow> bool" where
  "nullish JUndefined = True"
| "nullish JNull = True"
| "nullish _ = False"

fun primitive :: "jsval \<Rightarrow> bool" where
  "primitive JUndefined = True"
| "primitive JNull = True"
| "primitive (JBool _) = True"
| "primitive (JNum _) = True"
| "primitive (JStr _) = True"
| "primitive _ = False"

text \<open>
  \<^verbatim>\<open>a === b\<close> (and the SameValueZero of \<^verbatim>\<open>includes\<close> and \<^verbatim>\<open>Map.get\<close>, which differs
  only on NaN): primitives are compared by value, objects by reference. Values carry no
  references, so two arrays, objects or maps are taken to be different objects; the
  shared \<open>EMPTY_PATTERN_LIST\<close> is the one object that is known to be itself.
\<close>

definition strict_eq :: "jsval \<Rightarrow> jsval \<Rightarrow> bool" where
  "strict_eq a b = (a = b \<and> (primitive a \<or> a = EMPTY_PATTERN_LIST))"

text \<open>\<^verbatim>\<open>a || b\<close> and \<^verbatim>\<open>a ?? b\<close> on values (both operands here are free of effects).\<close>

definition js_or :: "jsval \<Rightarrow> jsval \<Rightarrow> jsval" where
  "js_or a b = (if truthy a then a else b)"

definition js_coalesce :: "jsval \<Rightarrow> jsval \<Rightarrow> jsval" where
  "js_coalesce a b = (if nullish a then b else a)"

subsection \<open>Properties\<close>

fun dec :: "nat \<Rightarrow> string" where
  "dec n = (if n < 10 then [''0123456789'' ! n]
            else dec (n div 10) @ [''0123456789'' ! (n mod 10)])"

declare dec.simps [simp del]

text \<open>The indexed properties of an array or a string: \<^verbatim>\<open>"0"\<close>, \<^verbatim>\<open>"1"\<close>, ...\<close>

definition indexed :: "'a list \<Rightarrow> (string \<times> 'a) list" where
  "indexed xs = zip (map dec [0..<length xs]) xs"

definition lookup_or_undefined :: "(string \<times> jsval) list \<Rightarrow> string \<Rightarrow> jsval" where
  "lookup_or_undefined kvs k = (case map_of kvs k of Some v \<Rightarrow> v | None \<Rightarrow> JUndefined)"

text \<open>
  \<^verbatim>\<open>v.k\<close> for a \<open>v\<close> that is neither \<^verbatim>\<open>undefined\<close> nor \<^verbatim>\<open>null\<close>: the own property, or
  \<^verbatim>\<open>undefined\<close>. Inherited properties are methods, and the sources read none of them as
  a value.
\<close>

fun lookup_prop :: "jsval \<Rightarrow> string \<Rightarrow> jsval" where
  "lookup_prop (JObj kvs) k = lookup_or_undefined kvs k"
| "lookup_prop (JArr xs) k =
     (if k = ''length'' then JNum (int (length xs)) else lookup_or_undefined (indexed xs) k)"
| "lookup_prop (JStr s) k =
     (if k = ''length'' then JNum (int (length s))
      else lookup_or_undefined (indexed (map (\<lambda>c. JStr [c]) s)) k)"
| "lookup_prop EMPTY_PATTERN_LIST k = (if k = ''length'' then JNum 0 else JUndefined)"
| "lookup_prop _ k = JUndefined"

definition get_prop :: "jsval \<Rightarrow> string \<Rightarrow> jsval result" where
  "get_prop v k = (if nullish v then Inl TypeError else Inr (lookup_prop v k))"

text \<open>The own enumerable properties, which \<^verbatim>\<open>{ ...v }\<close> copies.\<close>

fun spread_props :: "jsval \<Rightarrow> (string \<times> jsval) list" where
  "spread_props (JObj kvs) = kvs"
| "spread_props (JArr xs) = indexed xs"
| "spread_props (JStr s) = indexed (map (\<lambda>c. JStr [c]) s)"
| "spread_props _ = []"

definition own_keys :: "jsval \<Rightarrow> string set" where
  "own_keys v = (case v of
       JObj kvs \<Rightarrow> fst ` set kvs
     | JArr xs \<Rightarrow> insert ''length'' (fst ` set (indexed xs))
     | JStr s \<Rightarrow> insert ''length'' (fst ` set (indexed s))
     | EMPTY_PATTERN_LIST \<Rightarrow> {''length''}
     | _ \<Rightarrow> {})"

text \<open>
  \<^verbatim>\<open>v.hasOwnProperty( k )\<close>. An object whose own property \<^verbatim>\<open>hasOwnProperty\<close> hides the
  inherited method holds a value there that cannot be called.
\<close>

definition hasOwnProperty :: "jsval \<Rightarrow> string \<Rightarrow> jsval result" where
  "hasOwnProperty v k =
     (if nullish v then Inl TypeError
      else if ''hasOwnProperty'' \<in> own_keys v then Inl TypeError
      else Inr (JBool (k \<in> own_keys v)))"

subsection \<open>Arrays, iteration, callbacks\<close>

text \<open>
  The receiver of \<^verbatim>\<open>.map\<close>, \<^verbatim>\<open>.filter\<close> and \<^verbatim>\<open>.every\<close>: only arrays have these methods,
  on every other value the call throws.
\<close>

fun array_of :: "jsval \<Rightarrow> jsval list result" where
  "array_of (JArr xs) = Inr xs"
| "array_of EMPTY_PATTERN_LIST = Inr []"
| "array_of _ = Inl TypeError"

text \<open>\<^verbatim>\<open>[ ...v ]\<close>: arrays, strings and maps are iterable.\<close>

fun iterate :: "jsval \<Rightarrow> jsval list result" where
  "iterate (JArr xs) = Inr xs"
| "iterate EMPTY_PATTERN_LIST = Inr []"
| "iterate (JStr s) = Inr (map (\<lambda>c. JStr [c]) s)"
| "iterate (JMap kvs) = Inr (map (\<lambda>(k, v). JArr [k, v]) kvs)"
| "iterate _ = Inl TypeError"

text \<open>
  The callbacks can throw, and the array methods call them from left to right:
  the first exception ends the loop.
\<close>

fun mapR :: "('a \<Rightarrow> 'b result) \<Rightarrow> 'a list \<Rightarrow> 'b list result" where
  "mapR f [] = Inr []"
| "mapR f (x # xs) = bindR (f x) (\<lambda>y. bindR (mapR f xs) (\<lambda>ys. Inr (y # ys)))"

fun filterR :: "('a \<Rightarrow> jsval result) \<Rightarrow> 'a list \<Rightarrow> 'a list result" where
  "filterR p [] = Inr []"
| "filterR p (x # xs) =
     bindR (p x) (\<lambda>b. bindR (filterR p xs) (\<lambda>ys. Inr (if truthy b then x # ys else ys)))"

text \<open>\<^verbatim>\<open>every\<close> stops at the first element whose test is falsy.\<close>

fun everyR :: "('a \<Rightarrow> jsval result) \<Rightarrow> 'a list \<Rightarrow> jsval result" where
  "everyR p [] = Inr (JBool True)"
| "everyR p (x # xs) =
     bindR (p x) (\<lambda>b. if truthy b then everyR p xs else Inr (JBool False))"

subsection \<open>Conversions\<close>

text \<open>
  \<^verbatim>\<open>String( v )\<close> for primitives. An integer is printed in decimal digits as long as
  it is a safe integer (at most \<open>2\<^sup>5\<^sup>3 - 1\<close> in absolute value); beyond that
  JavaScript rounds and, for large numbers, changes to the exponent notation.
\<close>

fun to_string :: "jsval \<Rightarrow> string result" where
  "to_string JUndefined = Inr ''undefined''"
| "to_string JNull = Inr ''null''"
| "to_string (JBool b) = Inr (if b then ''true'' else ''false'')"
| "to_string (JNum n) =
     (if \<bar>n\<bar> \<le> 9007199254740991
      then Inr (if n < 0 then CHR ''-'' # dec (nat (- n)) else dec (nat n))
      else Inl Unsupported)"
| "to_string (JStr s) = Inr s"
| "to_string _ = Inl Unsupported"

fun is_string :: "jsval \<Rightarrow> bool" where
  "is_string (JStr _) = True"
| "is_string _ = False"

text \<open>
  \<^verbatim>\<open>a + b\<close> with a string operand is concatenation. The sources add nothing else.
\<close>

definition js_add :: "jsval \<Rightarrow> jsval \<Rightarrow> jsval result" where
  "js_add a b =
     (if is_string a \<or> is_string b
      then bindR (to_string a) (\<lambda>x. bindR (to_string b) (\<lambda>y. Inr (JStr (x @ y))))
      else Inl Unsupported)"

text \<open>
  \<^verbatim>\<open>Number( v )\<close>, with \<open>None\<close> for NaN. Strings and objects convert through the numeric
  string grammar, which is not followed.
\<close>

fun to_number :: "jsval \<Rightarrow> int option result" where
  "to_number JUndefined = Inr None"
| "to_number JNull = Inr (Some 0)"
| "to_number (JBool b) = Inr (Some (if b then 1 else 0))"
| "to_number (JNum n) = Inr (Some n)"
| "to_number _ = Inl Unsupported"

text \<open>\<^verbatim>\<open>a > b\<close>: a comparison with NaN is false.\<close>

definition js_gt :: "jsval \<Rightarrow> jsval \<Rightarrow> bool result" where
  "js_gt a b =
     bindR (to_number a) (\<lambda>x. bindR (to_number b) (\<lambda>y.
       Inr (case (x, y) of (Some m, Some n) \<Rightarrow> n < m | _ \<Rightarrow> False)))"

fun starts_with :: "string \<Rightarrow> string \<Rightarrow> bool" where
  "starts_with s [] = True"
| "starts_with [] (c # cs) = False"
| "starts_with (d # ds) (c # cs) = (d = c \<and> starts_with ds cs)"

fun contains :: "string \<Rightarrow> string \<Rightarrow> bool" where
  "contains [] t = (t = [])"
| "contains (c # cs) t = (starts_with (c # cs) t \<or> contains cs t)"

text \<open>
  \<^verbatim>\<open>v.includes( x )\<close>: arrays search for an element, strings for a substring, nothing
  else has the method.
\<close>

fun js_includes :: "jsval \<Rightarrow> jsval \<Rightarrow> jsval result" where
  "js_includes (JArr xs) x = Inr (JBool (\<exists>y \<in> set xs. strict_eq y x))"
| "js_includes EMPTY_PATTERN_LIST x = Inr (JBool False)"
| "js_includes (JStr s) x = bindR (to_string x) (\<lambda>t. Inr (JBool (contains s t)))"
| "js_includes _ x = Inl TypeError"

text \<open>\<^verbatim>\<open>m.get( k )\<close>: only a \<^verbatim>\<open>Map\<close> has it.\<close>

fun js_get :: "jsval \<Rightarrow> jsval \<Rightarrow> jsval result" where
  "js_get (JMap kvs) k =
     Inr (case find (\<lambda>(k', v). strict_eq k' k) kvs of Some (k', v) \<Rightarrow> v | None \<Rightarrow> JUndefined)"
| "js_get _ k = Inl TypeError"

text \<open>
  A parameter \<^verbatim>\<open>{ a, b = '' } = {}\<close>: a missing argument is the empty object, and
  destructuring \<^verbatim>\<open>null\<close> throws. A default applies to a property that is \<^verbatim>\<open>undefined\<close>.
\<close>

definition options_of :: "jsval \<Rightarrow> jsval result" where
  "options_of opts =
     (if opts = JUndefined then Inr (JObj [])
      else if opts = JNull then Inl TypeError
      else Inr opts)"

definition js_default :: "jsval \<Rightarrow> jsval \<Rightarrow> jsval" where
  "js_default v d = (if v = JUndefined then d else v)"

section \<open>What the hooks import\<close>

text \<open>
  The module of \<^verbatim>\<open>usePatterns\<close> imports \<^verbatim>\<open>parse\<close> and \<^verbatim>\<open>decodeEntities\<close> from other
  packages, and
  the constants, \<^verbatim>\<open>filterOutDuplicatesByName\<close> and \<^verbatim>\<open>searchItems\<close> from the modules
  \<^verbatim>\<open>./utils\<close> and \<^verbatim>\<open>./search-items\<close>. None of them is among the sources, so the functions
  below take them as a parameter. \<^verbatim>\<open>parse\<close> is always called with the same options; it
  and \<^verbatim>\<open>decodeEntities\<close> are taken to return for every argument. A value of \<open>imported\<close>
  is what the imports answer in one run, where \<^verbatim>\<open>parse\<close> is a function of the content.
  What it returns for a content can differ from one run to the next (the blocks it makes
  can carry an id that is new every time): two runs are two values of \<open>imported\<close>.

  \<^verbatim>\<open>searchItems( items, search, config )\<close> gets a configuration object with the callback
  \<^verbatim>\<open>hasCategory\<close> and, in two of its four calls, a \<^verbatim>\<open>categoryId\<close>.
\<close>

record search_config =
  cfg_categoryId :: "jsval option"
  cfg_hasCategory :: "jsval \<Rightarrow> jsval \<Rightarrow> jsval result"

record imported =
  parse :: "jsval \<Rightarrow> jsval"
  decodeEntities :: "jsval \<Rightarrow> jsval"
  searchItems :: "jsval list \<Rightarrow> jsval \<Rightarrow> search_config \<Rightarrow> jsval list result"
  filterOutDuplicatesByName :: "jsval \<Rightarrow> nat \<Rightarrow> jsval list \<Rightarrow> jsval result"
  CORE_PATTERN_SOURCES :: jsval
  PATTERNS :: jsval
  SYNC_TYPES :: jsval
  TEMPLATE_PARTS :: jsval
  USER_PATTERNS :: jsval

text \<open>
  \<^verbatim>\<open>select( store )\<close> gives the selectors of the core, editor and edit-site stores. The
  hooks call six of them; a registry is what these six return. The three without
  arguments are the value they return.
\<close>

record registry =
  getEntityRecords :: "jsval \<Rightarrow> jsval \<Rightarrow> jsval \<Rightarrow> jsval"
  getIsResolving :: "jsval \<Rightarrow> jsval \<Rightarrow> jsval"
  getUserPatternCategories :: jsval
  getBlockPatterns :: jsval
  experimentalGetDefaultTemplatePartAreas :: jsval
  getSettings :: jsval

section \<open>Template parts as patterns\<close>

definition createTemplatePartId :: "jsval \<Rightarrow> jsval \<Rightarrow> jsval result" where
  "createTemplatePartId theme slug =
     (if truthy theme \<and> truthy slug
      then bindR (js_add theme (JStr ''//'')) (\<lambda>prefix. js_add prefix slug)
      else Inr JNull)"

text \<open>
  The object literal is evaluated from top to bottom. Once \<^verbatim>\<open>templatePart.content\<close> has
  been read, \<^verbatim>\<open>templatePart\<close> is neither \<^verbatim>\<open>undefined\<close> nor \<^verbatim>\<open>null\<close>, and its other
  properties are read with \<open>lookup_prop\<close>.
\<close>

definition templatePartToPattern :: "imported \<Rightarrow> jsval \<Rightarrow> jsval result" where
  "templatePartToPattern d templatePart =
     bindR (get_prop templatePart ''content'') (\<lambda>content.
     bindR (get_prop content ''raw'') (\<lambda>raw.
     bindR (createTemplatePartId (lookup_prop templatePart ''theme'')
              (lookup_prop templatePart ''slug'')) (\<lambda>id.
     bindR (createTemplatePartId (lookup_prop templatePart ''theme'')
              (lookup_prop templatePart ''slug'')) (\<lambda>name.
     bindR (get_prop (lookup_prop templatePart ''title'') ''rendered'') (\<lambda>rendered.
     Inr (JObj
       [ (''blocks'', parse d raw),
         (''categories'', JArr [lookup_prop templatePart ''area'']),
         (''description'', js_or (lookup_prop templatePart ''description'') (JStr [])),
         (''isCustom'', JBool (strict_eq (lookup_prop templatePart ''source'') (JStr ''custom''))),
         (''keywords'', js_or (lookup_prop templatePart ''keywords'') (JArr [])),
         (''id'', id),
         (''name'', name),
         (''title'', decodeEntities d rendered),
         (''type'', lookup_prop templatePart ''type''),
         (''templatePart'', templatePart) ]))))))"

definition templatePartHasCategory :: "jsval list \<Rightarrow> jsval \<Rightarrow> jsval \<Rightarrow> jsval result" where
  "templatePartHasCategory templatePartAreas item category =
     (if \<not> strict_eq category (JStr ''uncategorized'')
      then bindR (get_prop item ''templatePart'') (\<lambda>templatePart.
           bindR (get_prop templatePart ''area'') (\<lambda>area.
           Inr (JBool (strict_eq area category))))
      else bindR (get_prop item ''templatePart'') (\<lambda>templatePart.
           bindR (get_prop templatePart ''area'') (\<lambda>area.
           Inr (JBool (strict_eq area category
                  \<or> \<not> (\<exists>known \<in> set templatePartAreas. strict_eq known area))))))"

definition selectTemplatePartsAsPatterns :: "imported \<Rightarrow> registry \<Rightarrow> jsval \<Rightarrow> jsval result" where
  "selectTemplatePartsAsPatterns d select opts =
     bindR (options_of opts) (\<lambda>options.
     let categoryId = lookup_prop options ''categoryId'';
         search = js_default (lookup_prop options ''search'') (JStr []);
         query = JObj [(''per_page'', JNum (- 1))];
         rawTemplateParts =
           js_coalesce (getEntityRecords select (JStr ''postType'') (TEMPLATE_PARTS d) query)
             EMPTY_PATTERN_LIST
     in
     bindR (array_of rawTemplateParts) (\<lambda>raws.
     bindR (mapR (\<lambda>templatePart. templatePartToPattern d templatePart) raws) (\<lambda>templateParts.
     let knownAreas = js_or (experimentalGetDefaultTemplatePartAreas select) (JArr []) in
     bindR (array_of knownAreas) (\<lambda>areas.
     bindR (mapR (\<lambda>area. get_prop area ''area'') areas) (\<lambda>templatePartAreas.
     let isResolving =
           getIsResolving select (JStr ''getEntityRecords'')
             (JArr [JStr ''postType'', JStr ''wp_template_part'', query])
     in
     bindR (searchItems d templateParts search
              \<lparr> cfg_categoryId = Some categoryId,
                cfg_hasCategory = templatePartHasCategory templatePartAreas \<rparr>) (\<lambda>patterns.
     Inr (JObj [(''patterns'', JArr patterns), (''isResolving'', isResolving)])))))))"

section \<open>Theme patterns\<close>

text \<open>\<^verbatim>\<open>xs.filter( f )\<close> for a callback that looks at the index and the array as well.\<close>

definition filterR_indexed ::
  "(jsval \<Rightarrow> nat \<Rightarrow> jsval list \<Rightarrow> jsval result) \<Rightarrow> jsval list \<Rightarrow> jsval list result" where
  "filterR_indexed p xs =
     bindR (filterR (\<lambda>(x, i). p x i xs) (zip xs [0..<length xs])) (\<lambda>kept. Inr (map fst kept))"

definition selectThemePatterns :: "imported \<Rightarrow> registry \<Rightarrow> jsval result" where
  "selectThemePatterns d select =
     (let settings = getSettings select in
      bindR (get_prop settings ''__experimentalAdditionalBlockPatterns'') (\<lambda>additional.
      bindR (if nullish additional then get_prop settings ''__experimentalBlockPatterns''
             else Inr additional) (\<lambda>blockPatterns.
      let restBlockPatterns = getBlockPatterns select in
      bindR (iterate (js_or blockPatterns (JArr []))) (\<lambda>fromSettings.
      bindR (iterate (js_or restBlockPatterns (JArr []))) (\<lambda>fromRest.
      bindR (filterR (\<lambda>pattern.
               bindR (get_prop pattern ''source'') (\<lambda>source.
               bindR (js_includes (CORE_PATTERN_SOURCES d) source) (\<lambda>core.
               Inr (JBool (\<not> truthy core))))) (fromSettings @ fromRest)) (\<lambda>notCore.
      bindR (filterR_indexed (filterOutDuplicatesByName d) notCore) (\<lambda>unique.
      bindR (filterR (\<lambda>pattern.
               bindR (get_prop pattern ''inserter'') (\<lambda>inserter.
               Inr (JBool (\<not> strict_eq inserter (JBool False))))) unique) (\<lambda>insertable.
      bindR (mapR (\<lambda>pattern.
               bindR (get_prop pattern ''keywords'') (\<lambda>keywords.
               bindR (get_prop pattern ''content'') (\<lambda>content.
               Inr (JObj
                 (AList.update ''blocks'' (parse d content)
                 (AList.update ''type'' (JStr ''pattern'')
                 (AList.update ''keywords'' (js_or keywords (JArr []))
                 (spread_props pattern)))))))) insertable) (\<lambda>patterns.
      Inr (JObj [(''patterns'', JArr patterns), (''isResolving'', JBool False)]))))))))))"

section \<open>User patterns\<close>

text \<open>
  The callback of \<^verbatim>\<open>wp_pattern_category.map\<close>:
  \<^verbatim>\<open>categories && categories.get( id ) ? categories.get( id ).slug : id\<close>.
\<close>

definition category_slug :: "jsval \<Rightarrow> jsval \<Rightarrow> jsval result" where
  "category_slug categories patternCategoryId =
     (if truthy categories
      then bindR (js_get categories patternCategoryId) (\<lambda>found.
           if truthy found
           then bindR (js_get categories patternCategoryId) (\<lambda>category. get_prop category ''slug'')
           else Inr patternCategoryId)
      else Inr patternCategoryId)"

text \<open>
  The argument of the spread in the object literal,
  \<^verbatim>\<open>patternBlock.wp_pattern_category.length > 0 && { categories: ... }\<close>, as the
  properties it adds: \<^verbatim>\<open>...( false )\<close> adds nothing.
\<close>

definition categories_spread :: "jsval \<Rightarrow> jsval \<Rightarrow> (string \<times> jsval) list result" where
  "categories_spread patternBlock categories =
     bindR (get_prop (lookup_prop patternBlock ''wp_pattern_category'') ''length'') (\<lambda>len.
     bindR (js_gt len (JNum 0)) (\<lambda>nonEmpty.
     if nonEmpty
     then bindR (array_of (lookup_prop patternBlock ''wp_pattern_category'')) (\<lambda>ids.
          bindR (mapR (category_slug categories) ids) (\<lambda>slugs.
          Inr [(''categories'', JArr slugs)]))
     else Inr []))"

definition patternBlockToPattern :: "imported \<Rightarrow> jsval \<Rightarrow> jsval \<Rightarrow> jsval result" where
  "patternBlockToPattern d patternBlock categories =
     bindR (get_prop patternBlock ''content'') (\<lambda>content.
     bindR (get_prop content ''raw'') (\<lambda>raw.
     bindR (categories_spread patternBlock categories) (\<lambda>spread.
     bindR (if truthy (lookup_prop patternBlock ''wp_pattern_sync_status'')
            then Inr (lookup_prop patternBlock ''wp_pattern_sync_status'')
            else get_prop (SYNC_TYPES d) ''full'') (\<lambda>syncStatus.
     bindR (get_prop (lookup_prop patternBlock ''title'') ''raw'') (\<lambda>title.
     Inr (JObj
       ([ (''blocks'', parse d raw) ] @ spread @
        [ (''id'', lookup_prop patternBlock ''id''),
          (''name'', lookup_prop patternBlock ''slug''),
          (''syncStatus'', syncStatus),
          (''title'', title),
          (''type'', USER_PATTERNS d),
          (''patternBlock'', patternBlock) ])))))))"

text \<open>
  Both \<^verbatim>\<open>selectUserPatterns\<close> and \<^verbatim>\<open>selectPatterns\<close> filter their list in the same words:
  \<^verbatim>\<open>if ( syncStatus ) { patterns = patterns.filter( ( pattern ) => pattern.syncStatus === syncStatus ); }\<close>
\<close>

definition filter_sync_status :: "jsval \<Rightarrow> jsval list \<Rightarrow> jsval list result" where
  "filter_sync_status syncStatus patterns =
     (if truthy syncStatus
      then filterR (\<lambda>pattern.
             bindR (get_prop pattern ''syncStatus'') (\<lambda>s.
             Inr (JBool (strict_eq s syncStatus)))) patterns
      else Inr patterns)"

definition selectUserPatterns :: "imported \<Rightarrow> registry \<Rightarrow> jsval \<Rightarrow> jsval result" where
  "selectUserPatterns d select opts =
     bindR (options_of opts) (\<lambda>options.
     let search = js_default (lookup_prop options ''search'') (JStr []);
         syncStatus = lookup_prop options ''syncStatus'';
         query = JObj [(''per_page'', JNum (- 1))];
         records = getEntityRecords select (JStr ''postType'') (USER_PATTERNS d) query;
         categories = getUserPatternCategories select
     in
     bindR (if truthy records
            then bindR (array_of records) (\<lambda>rs.
                 mapR (\<lambda>record.
                   bindR (get_prop categories ''patternCategoriesMap'') (\<lambda>patternCategoriesMap.
                   patternBlockToPattern d record patternCategoriesMap)) rs)
            else array_of EMPTY_PATTERN_LIST) (\<lambda>mapped.
     let isResolving =
           getIsResolving select (JStr ''getEntityRecords'')
             (JArr [JStr ''postType'', USER_PATTERNS d, query])
     in
     bindR (filter_sync_status syncStatus mapped) (\<lambda>filtered.
     bindR (searchItems d filtered search
              \<lparr> cfg_categoryId = None, cfg_hasCategory = (\<lambda>item category. Inr (JBool True)) \<rparr>)
       (\<lambda>patterns.
     bindR (get_prop categories ''patternCategories'') (\<lambda>patternCategories.
     Inr (JObj
       [ (''patterns'', JArr patterns),
         (''isResolving'', isResolving),
         (''categories'', patternCategories) ]))))))"

section \<open>All patterns\<close>

definition selectPatterns :: "imported \<Rightarrow> registry \<Rightarrow> jsval \<Rightarrow> jsval result" where
  "selectPatterns d select opts =
     bindR (options_of opts) (\<lambda>options.
     let categoryId = lookup_prop options ''categoryId'';
         search = js_default (lookup_prop options ''search'') (JStr []);
         syncStatus = lookup_prop options ''syncStatus''
     in
     bindR (selectThemePatterns d select) (\<lambda>theme.
     bindR (get_prop theme ''patterns'') (\<lambda>themePatterns.
     bindR (selectUserPatterns d select JUndefined) (\<lambda>user.
     bindR (get_prop user ''patterns'') (\<lambda>userPatterns.
     bindR (iterate (js_or themePatterns (JArr []))) (\<lambda>fromTheme.
     bindR (iterate (js_or userPatterns (JArr []))) (\<lambda>fromUser.
     bindR (filter_sync_status syncStatus (fromTheme @ fromUser)) (\<lambda>filtered.
     bindR (if truthy categoryId
            then searchItems d filtered search
                   \<lparr> cfg_categoryId = Some categoryId,
                     cfg_hasCategory = (\<lambda>item currentCategory.
                       bindR (get_prop item ''categories'') (\<lambda>cs.
                       if nullish cs then Inr JUndefined else js_includes cs currentCategory)) \<rparr>
            else searchItems d filtered search
                   \<lparr> cfg_categoryId = None,
                     cfg_hasCategory = (\<lambda>item category.
                       bindR (hasOwnProperty item ''categories'') (\<lambda>has.
                       Inr (JBool (\<not> truthy has)))) \<rparr>) (\<lambda>patterns.
     Inr (JObj [(''patterns'', JArr patterns), (''isResolving'', JBool False)]))))))))))"

section \<open>The hook\<close>

text \<open>
  \<^verbatim>\<open>useSelect( callback, dependencies )\<close> calls the callback with the registry's
  \<^verbatim>\<open>select\<close> and
  returns what the callback returns. The third parameter of \<^verbatim>\<open>usePatterns\<close> is
  destructured before that.
\<close>

definition usePatterns :: "imported \<Rightarrow> registry \<Rightarrow> jsval \<Rightarrow> jsval \<Rightarrow> jsval \<Rightarrow> jsval result" where
  "usePatterns d select categoryType categoryId opts =
     bindR (options_of opts) (\<lambda>options.
     let search = js_default (lookup_prop options ''search'') (JStr []);
         syncStatus = lookup_prop options ''syncStatus''
     in
     if strict_eq categoryType (TEMPLATE_PARTS d)
     then selectTemplatePartsAsPatterns d select
            (JObj [(''categoryId'', categoryId), (''search'', search)])
     else if strict_eq categoryType (PATTERNS d)
     then selectPatterns d select
            (JObj [(''categoryId'', categoryId), (''search'', search),
                   (''syncStatus'', syncStatus)])
     else if strict_eq categoryType (USER_PATTERNS d)
     then selectUserPatterns d select
            (JObj [(''search'', search), (''syncStatus'', syncStatus)])
     else Inr (JObj [(''patterns'', EMPTY_PATTERN_LIST), (''isResolving'', JBool False)]))"

section \<open>The transforms of the quote block\<close>

text \<open>
  The transform table imports \<^verbatim>\<open>createBlock\<close>, \<^verbatim>\<open>parseWithAttributeSchema\<close> and
  \<^verbatim>\<open>serialize\<close> from the blocks package, which is not among the sources. \<^verbatim>\<open>createBlock\<close> is called with
  a name, the attributes and, in three of its six calls, the inner blocks; a missing
  argument is \<^verbatim>\<open>undefined\<close>.
\<close>

record blocks_api =
  createBlock :: "jsval \<Rightarrow> jsval \<Rightarrow> jsval \<Rightarrow> jsval"
  parseWithAttributeSchema :: "jsval \<Rightarrow> jsval \<Rightarrow> jsval"
  serialize :: "jsval \<Rightarrow> jsval"

text \<open>\<^verbatim>\<open>transforms.from\<close>, from a group: the parameter \<^verbatim>\<open>{}\<close> destructures the attributes.\<close>

definition from_group_transform :: "blocks_api \<Rightarrow> jsval \<Rightarrow> jsval \<Rightarrow> jsval result" where
  "from_group_transform api attributes innerBlocks =
     (if nullish attributes then Inl TypeError
      else Inr (createBlock api (JStr ''core/quote'') (JObj []) innerBlocks))"

text \<open>
  \<^verbatim>\<open>transforms.from\<close>, from a pullquote: the paragraphs that \<^verbatim>\<open>parseWithAttributeSchema\<close>
  finds in the value become the inner blocks.
\<close>

definition paragraph_schema :: jsval where
  "paragraph_schema =
     JObj [ (''type'', JStr ''array''),
            (''source'', JStr ''query''),
            (''selector'', JStr ''p''),
            (''query'',
               JObj [(''content'', JObj [(''type'', JStr ''string''), (''source'', JStr ''text'')])]) ]"

definition from_pullquote_transform :: "blocks_api \<Rightarrow> jsval \<Rightarrow> jsval result" where
  "from_pullquote_transform api attributes =
     bindR (get_prop attributes ''value'') (\<lambda>value.
     bindR (get_prop attributes ''citation'') (\<lambda>citation.
     bindR (array_of (parseWithAttributeSchema api value paragraph_schema)) (\<lambda>found.
     bindR (mapR (\<lambda>paragraph.
              bindR (get_prop paragraph ''content'') (\<lambda>content.
              Inr (createBlock api (JStr ''core/paragraph'')
                     (JObj [(''content'', content)]) JUndefined))) found) (\<lambda>paragraphs.
     Inr (createBlock api (JStr ''core/quote'') (JObj [(''attribution'', citation)])
            (JArr paragraphs))))))"


text \<open>\<^verbatim>\<open>transforms.to\<close>, to a pullquote: \<^verbatim>\<open>isMatch\<close> and \<^verbatim>\<open>transform\<close>.\<close>

definition to_pullquote_isMatch :: "jsval \<Rightarrow> jsval \<Rightarrow> jsval result" where
  "to_pullquote_isMatch attributes block =
     bindR (get_prop block ''innerBlocks'') (\<lambda>innerBlocks.
     bindR (array_of innerBlocks) (\<lambda>blocks.
     everyR (\<lambda>inner.
       bindR (get_prop inner ''name'') (\<lambda>name.
       Inr (JBool (strict_eq name (JStr ''core/paragraph''))))) blocks))"

definition to_pullquote_transform :: "blocks_api \<Rightarrow> jsval \<Rightarrow> jsval \<Rightarrow> jsval result" where
  "to_pullquote_transform api attributes innerBlocks =
     bindR (get_prop attributes ''attribution'') (\<lambda>attribution.
     Inr (createBlock api (JStr ''core/pullquote'')
            (JObj [(''value'', serialize api innerBlocks), (''citation'', attribution)])
            JUndefined))"

section \<open>The records the store holds\<close>

text \<open>
  What the two projections read of a record before they return. A template part is an
  object with a \<^verbatim>\<open>content\<close> and a \<^verbatim>\<open>title\<close> object whose \<^verbatim>\<open>theme\<close> and \<^verbatim>\<open>slug\<close> are
  strings (or missing). A pattern post is an object with a
  \<^verbatim>\<open>content\<close> and a \<^verbatim>\<open>title\<close> object whose \<^verbatim>\<open>wp_pattern_category\<close> is an array.
\<close>

definition template_part_record :: "jsval \<Rightarrow> bool" where
  "template_part_record templatePart =
     (\<not> nullish templatePart
      \<and> \<not> nullish (lookup_prop templatePart ''content'')
      \<and> \<not> nullish (lookup_prop templatePart ''title'')
      \<and> (nullish (lookup_prop templatePart ''theme'')
           \<or> is_string (lookup_prop templatePart ''theme''))
      \<and> (nullish (lookup_prop templatePart ''slug'')
           \<or> is_string (lookup_prop templatePart ''slug'')))"

fun is_array :: "jsval \<Rightarrow> bool" where
  "is_array (JArr xs) = True"
| "is_array _ = False"

fun is_map :: "jsval \<Rightarrow> bool" where
  "is_map (JMap m) = True"
| "is_map _ = False"

definition pattern_post_record :: "jsval \<Rightarrow> bool" where
  "pattern_post_record patternBlock =
     (\<not> nullish patternBlock
      \<and> \<not> nullish (lookup_prop patternBlock ''content'')
      \<and> \<not> nullish (lookup_prop patternBlock ''title'')
      \<and> is_array (lookup_prop patternBlock ''wp_pattern_category''))"

section \<open>What the hooks read from the store\<close>


section \<open>What is assumed of \<^verbatim>\<open>searchItems\<close>\<close>

text \<open>
  \<^verbatim>\<open>searchItems\<close> ranks and filters the items it is given. Its module is not among the
  sources; the two properties of it that theorems below rest on are stated here and
  appear there as hypotheses: it finds nothing in an empty list, and what it returns are
  items of the list it was given.
\<close>

definition searchItems_of_nothing :: "imported \<Rightarrow> bool" where
  "searchItems_of_nothing d = (\<forall>search config. searchItems d [] search config = Inr [])"

definition searchItems_selects :: "imported \<Rightarrow> bool" where
  "searchItems_selects d =
     (\<forall>items search config found.
        searchItems d items search config = Inr found \<longrightarrow> set found \<subseteq> set items)"

section \<open>Example values\<close>

text \<open>
  Concrete imports, a concrete registry and concrete records, on which the functions are
  evaluated below. The example \<^verbatim>\<open>searchItems\<close> ignores the search text and keeps the
  items that \<^verbatim>\<open>hasCategory\<close> accepts for the configured category; the example
  \<^verbatim>\<open>filterOutDuplicatesByName\<close> keeps the first item of each name.
\<close>

definition example_searchItems :: "jsval list \<Rightarrow> jsval \<Rightarrow> search_config \<Rightarrow> jsval list result" where
  "example_searchItems items search config =
     filterR (\<lambda>item. cfg_hasCategory config item
                (case cfg_categoryId config of Some c \<Rightarrow> c | None \<Rightarrow> JUndefined)) items"

definition example_filterOutDuplicatesByName :: "jsval \<Rightarrow> nat \<Rightarrow> jsval list \<Rightarrow> jsval result" where
  "example_filterOutDuplicatesByName currentItem index items =
     Inr (JBool (index = length (takeWhile
       (\<lambda>item. \<not> strict_eq (lookup_prop currentItem ''name'') (lookup_prop item ''name'')) items)))"

definition example_imported :: imported where
  "example_imported =
     \<lparr> parse = (\<lambda>content. JArr [JObj [(''name'', JStr ''core/freeform''), (''content'', content)]]),
       decodeEntities = (\<lambda>text. text),
       searchItems = example_searchItems,
       filterOutDuplicatesByName = example_filterOutDuplicatesByName,
       CORE_PATTERN_SOURCES = JArr [JStr ''core'', JStr ''pattern-directory/core''],
       PATTERNS = JStr ''pattern'',
       SYNC_TYPES = JObj [(''full'', JStr ''fully''), (''unsynced'', JStr ''unsynced'')],
       TEMPLATE_PARTS = JStr ''wp_template_part'',
       USER_PATTERNS = JStr ''wp_block'' \<rparr>"

definition example_template_part :: jsval where
  "example_template_part =
     JObj [ (''id'', JStr ''twentytwenty//header''),
            (''theme'', JStr ''twentytwenty''),
            (''slug'', JStr ''header''),
            (''type'', JStr ''wp_template_part''),
            (''source'', JStr ''custom''),
            (''area'', JStr ''header''),
            (''title'', JObj [(''raw'', JStr ''Header''), (''rendered'', JStr ''Header'')]),
            (''content'', JObj [(''raw'', JStr ''<p>Hi</p>'')]) ]"

definition example_orphan_part :: jsval where
  "example_orphan_part =
     JObj [ (''slug'', JStr ''sidebar''),
            (''type'', JStr ''wp_template_part''),
            (''source'', JStr ''theme''),
            (''area'', JStr ''uncategorized''),
            (''title'', JObj [(''rendered'', JStr ''Sidebar'')]),
            (''content'', JObj [(''raw'', JStr [])]) ]"

definition example_category :: jsval where
  "example_category = JObj [(''id'', JNum 7), (''slug'', JStr ''banners''), (''name'', JStr ''Banners'')]"

definition example_categories_map :: jsval where
  "example_categories_map = JMap [(JNum 7, example_category)]"

definition example_pattern_post :: jsval where
  "example_pattern_post =
     JObj [ (''id'', JNum 12),
            (''slug'', JStr ''my-banner''),
            (''type'', JStr ''wp_block''),
            (''wp_pattern_category'', JArr [JNum 7, JNum 9]),
            (''wp_pattern_sync_status'', JStr ''unsynced''),
            (''title'', JObj [(''raw'', JStr ''My banner'')]),
            (''content'', JObj [(''raw'', JStr ''<p>Sale</p>'')]) ]"

definition example_synced_post :: jsval where
  "example_synced_post =
     JObj [ (''id'', JNum 13),
            (''slug'', JStr ''footer-note''),
            (''type'', JStr ''wp_block''),
            (''wp_pattern_category'', JArr []),
            (''wp_pattern_sync_status'', JStr []),
            (''title'', JObj [(''raw'', JStr ''Footer note'')]),
            (''content'', JObj [(''raw'', JStr ''<p>Bye</p>'')]) ]"

definition example_theme_pattern :: jsval where
  "example_theme_pattern =
     JObj [ (''name'', JStr ''theme/hero''),
            (''title'', JStr ''Hero''),
            (''content'', JStr ''<p>Hero</p>''),
            (''source'', JStr ''theme'') ]"

definition example_select :: registry where
  "example_select =
     \<lparr> getEntityRecords = (\<lambda>kind name query.
         if name = JStr ''wp_template_part'' then JArr [example_template_part]
         else if name = JStr ''wp_block'' then JArr [example_pattern_post, example_synced_post]
         else JNull),
       getIsResolving = (\<lambda>selectorName args. JBool False),
       getUserPatternCategories =
         JObj [ (''patternCategories'', JArr [example_category]),
                (''patternCategoriesMap'', example_categories_map) ],
       getBlockPatterns = JArr [example_theme_pattern],
       experimentalGetDefaultTemplatePartAreas = JArr [JObj [(''area'', JStr ''header'')]],
       getSettings = JObj [(''__experimentalBlockPatterns'', JArr [example_theme_pattern])] \<rparr>"

text \<open>
  A registry without records, and a registry that answers the calls the hooks make as
  \<open>example_select\<close> does and every other call differently.
\<close>

definition example_empty_select :: registry where
  "example_empty_select =
     \<lparr> getEntityRecords = (\<lambda>kind name query. JNull),
       getIsResolving = (\<lambda>selectorName args. JBool True),
       getUserPatternCategories =
         JObj [(''patternCategories'', JArr []), (''patternCategoriesMap'', JMap [])],
       getBlockPatterns = JUndefined,
       experimentalGetDefaultTemplatePartAreas =
         JArr [JObj [(''area'', JStr ''header'')], JObj [(''area'', JStr ''footer'')]],
       getSettings = JObj [] \<rparr>"


definition example_quote :: jsval where
  "example_quote =
     JObj [ (''name'', JStr ''core/quote''),
            (''attributes'', JObj [(''attribution'', JStr ''Ada'')]),
            (''innerBlocks'',
               JArr [ JObj [(''name'', JStr ''core/paragraph''), (''innerBlocks'', JArr [])],
                      JObj [(''name'', JStr ''core/list''), (''innerBlocks'', JArr [])] ]) ]"

section \<open>What is assumed of \<^verbatim>\<open>createBlock\<close>\<close>





section \<open>The projections on a heap\<close>

text \<open>
  A \<open>jsval\<close> is what an object holds, not the object: whether a function writes to an
  object that it was given cannot be said of such values. For that question the two
  projections are embedded a second time, over a heap; the names of this embedding end
  in \<open>H\<close>. The heap is the list of the objects created so far, and the address of an
  object is its position. A value is a primitive or the address of an object. Object
  and array literals create an object; the functions assign to no property and call no
  method that writes, so creating an object is the only change of the heap that the
  embedding of the two functions has. The imported functions are programs on the heap
  as well and can change it in any way.
\<close>

datatype hval = HUndefined | HNull | HBool bool | HNum int | HStr string | HRef nat

datatype hobj =
    HObject "(string \<times> hval) list"
  | HArray "hval list"
  | HMap "(hval \<times> hval) list"

type_synonym heap = "hobj list"

text \<open>An expression is evaluated in a heap, returns or throws, and leaves a heap.\<close>

type_synonym 'a prog = "heap \<Rightarrow> 'a result \<times> heap"

definition liftR :: "'a result \<Rightarrow> 'a prog" where
  "liftR r = (\<lambda>h. (r, h))"

definition returnH :: "'a \<Rightarrow> 'a prog" where
  "returnH x = liftR (Inr x)"

definition bindH :: "'a prog \<Rightarrow> ('a \<Rightarrow> 'b prog) \<Rightarrow> 'b prog" where
  "bindH m f = (\<lambda>h. case m h of (Inl e, h') \<Rightarrow> (Inl e, h') | (Inr x, h') \<Rightarrow> f x h')"

definition alloc :: "hobj \<Rightarrow> hval prog" where
  "alloc obj = (\<lambda>h. (Inr (HRef (length h)), h @ [obj]))"

text \<open>
  The primitives are those of \<open>jsval\<close>, with its conversions. An object is truthy and
  not nullish, it is \<^verbatim>\<open>===\<close> to itself only (two references are equal when they are the
  same address), and it is not converted to a string or a number.
\<close>

fun primitive_of :: "hval \<Rightarrow> jsval option" where
  "primitive_of HUndefined = Some JUndefined"
| "primitive_of HNull = Some JNull"
| "primitive_of (HBool b) = Some (JBool b)"
| "primitive_of (HNum n) = Some (JNum n)"
| "primitive_of (HStr s) = Some (JStr s)"
| "primitive_of (HRef a) = None"

definition h_truthy :: "hval \<Rightarrow> bool" where
  "h_truthy v = (case primitive_of v of Some p \<Rightarrow> truthy p | None \<Rightarrow> True)"

definition h_nullish :: "hval \<Rightarrow> bool" where
  "h_nullish v = (case primitive_of v of Some p \<Rightarrow> nullish p | None \<Rightarrow> False)"

definition h_add :: "hval \<Rightarrow> hval \<Rightarrow> hval result" where
  "h_add a b =
     (case (primitive_of a, primitive_of b) of
        (Some x, Some y) \<Rightarrow> bindR (js_add x y) (\<lambda>s. bindR (to_string s) (\<lambda>t. Inr (HStr t)))
      | _ \<Rightarrow> Inl Unsupported)"

definition h_gt :: "hval \<Rightarrow> hval \<Rightarrow> bool result" where
  "h_gt a b =
     (case (primitive_of a, primitive_of b) of
        (Some x, Some y) \<Rightarrow> js_gt x y
      | _ \<Rightarrow> Inl Unsupported)"

text \<open>The object at a reference, and \<^verbatim>\<open>v.k\<close>, read from the heap as it is at that moment.\<close>

definition deref :: "heap \<Rightarrow> hval \<Rightarrow> hobj option" where
  "deref h v = (case v of HRef a \<Rightarrow> (if a < length h then Some (h ! a) else None) | _ \<Rightarrow> None)"

definition own_or_undefined :: "(string \<times> hval) list \<Rightarrow> string \<Rightarrow> hval" where
  "own_or_undefined kvs k = (case map_of kvs k of Some v \<Rightarrow> v | None \<Rightarrow> HUndefined)"

definition h_lookup_prop :: "heap \<Rightarrow> hval \<Rightarrow> string \<Rightarrow> hval" where
  "h_lookup_prop h v k =
     (case v of
        HRef a \<Rightarrow>
          (case deref h v of
             Some (HObject kvs) \<Rightarrow> own_or_undefined kvs k
           | Some (HArray xs) \<Rightarrow>
               (if k = ''length'' then HNum (int (length xs)) else own_or_undefined (indexed xs) k)
           | _ \<Rightarrow> HUndefined)
      | HStr s \<Rightarrow>
          (if k = ''length'' then HNum (int (length s))
           else own_or_undefined (indexed (map (\<lambda>c. HStr [c]) s)) k)
      | _ \<Rightarrow> HUndefined)"

definition h_get_prop :: "hval \<Rightarrow> string \<Rightarrow> hval prog" where
  "h_get_prop v k = (\<lambda>h. (if h_nullish v then Inl TypeError else Inr (h_lookup_prop h v k), h))"

text \<open>
  The elements that \<^verbatim>\<open>.map\<close> goes through (only an array has the method), \<^verbatim>\<open>m.get( k )\<close>
  (only a \<^verbatim>\<open>Map\<close> has it), and \<^verbatim>\<open>.map\<close> with a callback that is a program.
\<close>

definition h_array_of :: "hval \<Rightarrow> hval list prog" where
  "h_array_of v = (\<lambda>h. (case deref h v of Some (HArray xs) \<Rightarrow> Inr xs | _ \<Rightarrow> Inl TypeError, h))"

definition h_get :: "hval \<Rightarrow> hval \<Rightarrow> hval prog" where
  "h_get m k =
     (\<lambda>h. (case deref h m of
              Some (HMap entries) \<Rightarrow>
                Inr (case find (\<lambda>(k', v). k' = k) entries of Some (k', v) \<Rightarrow> v | None \<Rightarrow> HUndefined)
            | _ \<Rightarrow> Inl TypeError, h))"

fun mapH :: "('a \<Rightarrow> 'b prog) \<Rightarrow> 'a list \<Rightarrow> 'b list prog" where
  "mapH f [] = returnH []"
| "mapH f (x # xs) = bindH (f x) (\<lambda>y. bindH (mapH f xs) (\<lambda>ys. returnH (y # ys)))"

text \<open>
  What the two projections import: \<^verbatim>\<open>parse( content, options )\<close> and
  \<^verbatim>\<open>decodeEntities( text )\<close>, programs on the heap, and the two constants.
\<close>

record heap_imported =
  parseH :: "hval \<Rightarrow> hval \<Rightarrow> hval prog"
  decodeEntitiesH :: "hval \<Rightarrow> hval prog"
  SYNC_TYPESH :: hval
  USER_PATTERNSH :: hval

definition createTemplatePartIdH :: "hval \<Rightarrow> hval \<Rightarrow> hval result" where
  "createTemplatePartIdH theme slug =
     (if h_truthy theme \<and> h_truthy slug
      then bindR (h_add theme (HStr ''//'')) (\<lambda>prefix. h_add prefix slug)
      else Inr HNull)"

text \<open>
  The object literal of \<^verbatim>\<open>templatePartToPattern\<close>, property by property in the order of
  the source: the options object of \<^verbatim>\<open>parse\<close>, the array \<^verbatim>\<open>[ templatePart.area ]\<close>, the
  array \<^verbatim>\<open>[]\<close> when there are no keywords and the pattern itself are new objects.
\<close>

definition templatePartToPatternH :: "heap_imported \<Rightarrow> hval \<Rightarrow> hval prog" where
  "templatePartToPatternH d templatePart =
     bindH (h_get_prop templatePart ''content'') (\<lambda>content.
     bindH (h_get_prop content ''raw'') (\<lambda>raw.
     bindH (alloc (HObject [(''__unstableSkipMigrationLogs'', HBool True)])) (\<lambda>options.
     bindH (parseH d raw options) (\<lambda>blocks.
     bindH (h_get_prop templatePart ''area'') (\<lambda>area.
     bindH (alloc (HArray [area])) (\<lambda>categories.
     bindH (h_get_prop templatePart ''description'') (\<lambda>description.
     bindH (h_get_prop templatePart ''source'') (\<lambda>source.
     bindH (h_get_prop templatePart ''keywords'') (\<lambda>given.
     bindH (if h_truthy given then returnH given else alloc (HArray [])) (\<lambda>keywords.
     bindH (h_get_prop templatePart ''theme'') (\<lambda>theme.
     bindH (h_get_prop templatePart ''slug'') (\<lambda>slug.
     bindH (liftR (createTemplatePartIdH theme slug)) (\<lambda>id.
     bindH (h_get_prop templatePart ''theme'') (\<lambda>theme'.
     bindH (h_get_prop templatePart ''slug'') (\<lambda>slug'.
     bindH (liftR (createTemplatePartIdH theme' slug')) (\<lambda>name.
     bindH (h_get_prop templatePart ''title'') (\<lambda>title.
     bindH (h_get_prop title ''rendered'') (\<lambda>rendered.
     bindH (decodeEntitiesH d rendered) (\<lambda>decoded.
     bindH (h_get_prop templatePart ''type'') (\<lambda>kind.
     alloc (HObject
       [ (''blocks'', blocks),
         (''categories'', categories),
         (''description'', if h_truthy description then description else HStr []),
         (''isCustom'', HBool (source = HStr ''custom'')),
         (''keywords'', keywords),
         (''id'', id),
         (''name'', name),
         (''title'', decoded),
         (''type'', kind),
         (''templatePart'', templatePart) ])))))))))))))))))))))"

definition category_slugH :: "hval \<Rightarrow> hval \<Rightarrow> hval prog" where
  "category_slugH categories patternCategoryId =
     (if h_truthy categories
      then bindH (h_get categories patternCategoryId) (\<lambda>found.
           if h_truthy found
           then bindH (h_get categories patternCategoryId) (\<lambda>category. h_get_prop category ''slug'')
           else returnH patternCategoryId)
      else returnH patternCategoryId)"

text \<open>
  The argument of the spread: the array that \<^verbatim>\<open>.map\<close> returns and the object
  \<^verbatim>\<open>{ categories: ... }\<close> are new objects, and the properties of the latter are copied.
\<close>

definition categories_spreadH :: "hval \<Rightarrow> hval \<Rightarrow> (string \<times> hval) list prog" where
  "categories_spreadH patternBlock categories =
     bindH (h_get_prop patternBlock ''wp_pattern_category'') (\<lambda>ids.
     bindH (h_get_prop ids ''length'') (\<lambda>len.
     bindH (liftR (h_gt len (HNum 0))) (\<lambda>nonEmpty.
     if nonEmpty
     then bindH (h_get_prop patternBlock ''wp_pattern_category'') (\<lambda>ids'.
          bindH (h_array_of ids') (\<lambda>elements.
          bindH (mapH (category_slugH categories) elements) (\<lambda>slugs.
          bindH (alloc (HArray slugs)) (\<lambda>mapped.
          bindH (alloc (HObject [(''categories'', mapped)])) (\<lambda>literal.
          returnH [(''categories'', mapped)])))))
     else returnH [])))"

definition patternBlockToPatternH :: "heap_imported \<Rightarrow> hval \<Rightarrow> hval \<Rightarrow> hval prog" where
  "patternBlockToPatternH d patternBlock categories =
     bindH (h_get_prop patternBlock ''content'') (\<lambda>content.
     bindH (h_get_prop content ''raw'') (\<lambda>raw.
     bindH (alloc (HObject [(''__unstableSkipMigrationLogs'', HBool True)])) (\<lambda>options.
     bindH (parseH d raw options) (\<lambda>blocks.
     bindH (categories_spreadH patternBlock categories) (\<lambda>spread.
     bindH (h_get_prop patternBlock ''id'') (\<lambda>id.
     bindH (h_get_prop patternBlock ''slug'') (\<lambda>name.
     bindH (h_get_prop patternBlock ''wp_pattern_sync_status'') (\<lambda>status.
     bindH (if h_truthy status then returnH status
            else h_get_prop (SYNC_TYPESH d) ''full'') (\<lambda>syncStatus.
     bindH (h_get_prop patternBlock ''title'') (\<lambda>title.
     bindH (h_get_prop title ''raw'') (\<lambda>titleRaw.
     alloc (HObject
       ([ (''blocks'', blocks) ] @ spread @
        [ (''id'', id),
          (''name'', name),
          (''syncStatus'', syncStatus),
          (''title'', titleRaw),
          (''type'', USER_PATTERNSH d),
          (''patternBlock'', patternBlock) ])))))))))))))"



text \<open>What a heap holds behind a value, read to the depth \<open>n\<close>.\<close>

fun value_of :: "nat \<Rightarrow> heap \<Rightarrow> hval \<Rightarrow> jsval" where
  "value_of n h HUndefined = JUndefined"
| "value_of n h HNull = JNull"
| "value_of n h (HBool b) = JBool b"
| "value_of n h (HNum i) = JNum i"
| "value_of n h (HStr s) = JStr s"
| "value_of 0 h (HRef a) = JUndefined"
| "value_of (Suc n) h (HRef a) =
     (case deref h (HRef a) of
        Some (HObject kvs) \<Rightarrow> JObj (map (\<lambda>(k, v). (k, value_of n h v)) kvs)
      | Some (HArray xs) \<Rightarrow> JArr (map (value_of n h) xs)
      | Some (HMap entries) \<Rightarrow> JMap (map (\<lambda>(k, v). (value_of n h k, value_of n h v)) entries)
      | None \<Rightarrow> JUndefined)"

subsection \<open>Example values on the heap\<close>

text \<open>
  A \<^verbatim>\<open>parse\<close> that gives the block it makes a client id (one that is given, one that
  is the number of objects on the heap), and a heap with the example template part,
  the example category map, the example pattern post and the sync types.
\<close>

definition example_parse_issuing :: "string \<Rightarrow> jsval \<Rightarrow> jsval" where
  "example_parse_issuing clientId content =
     JArr [JObj [ (''clientId'', JStr clientId),
                  (''name'', JStr ''core/freeform''),
                  (''content'', content) ]]"

definition example_parseH :: "hval \<Rightarrow> hval \<Rightarrow> hval prog" where
  "example_parseH content options =
     (\<lambda>h. bindH (alloc (HObject [ (''clientId'', HStr (dec (length h))),
                                  (''name'', HStr ''core/freeform''),
                                  (''content'', content) ]))
            (\<lambda>block. alloc (HArray [block])) h)"

definition example_heap_imported :: heap_imported where
  "example_heap_imported =
     \<lparr> parseH = example_parseH,
       decodeEntitiesH = (\<lambda>text. returnH text),
       SYNC_TYPESH = HRef 9,
       USER_PATTERNSH = HStr ''wp_block'' \<rparr>"

definition example_heap :: heap where
  "example_heap =
     [ HObject [(''raw'', HStr ''<p>Hi</p>'')],
       HObject [(''raw'', HStr ''Header''), (''rendered'', HStr ''Header'')],
       HObject [ (''id'', HStr ''twentytwenty//header''),
                 (''theme'', HStr ''twentytwenty''),
                 (''slug'', HStr ''header''),
                 (''type'', HStr ''wp_template_part''),
                 (''source'', HStr ''custom''),
                 (''area'', HStr ''header''),
                 (''title'', HRef 1),
                 (''content'', HRef 0) ],
       HObject [(''id'', HNum 7), (''slug'', HStr ''banners''), (''name'', HStr ''Banners'')],
       HMap [(HNum 7, HRef 3)],
       HObject [(''raw'', HStr ''<p>Sale</p>'')],
       HObject [(''raw'', HStr ''My banner'')],
       HArray [HNum 7, HNum 9],
       HObject [ (''id'', HNum 12),
                 (''slug'', HStr ''my-banner''),
                 (''type'', HStr ''wp_block''),
                 (''wp_pattern_category'', HRef 7),
                 (''wp_pattern_sync_status'', HStr ''unsynced''),
                 (''title'', HRef 6),
                 (''content'', HRef 5) ],
       HObject [(''full'', HStr ''fully''), (''unsynced'', HStr ''unsynced'')] ]"

section \<open>Basic facts\<close>

lemma bindR_Inr [simp]: "bindR (Inr x) f = f x"
  by (simp add: bindR_def)

lemma bindR_Inl [simp]: "bindR (Inl e) f = Inl e"
  by (simp add: bindR_def)

lemma bindR_eq_Inr: "bindR m f = Inr y \<longleftrightarrow> (\<exists>x. m = Inr x \<and> f x = Inr y)"
  by (cases m) simp_all

lemma get_prop_eq_Inr: "get_prop v k = Inr x \<longleftrightarrow> \<not> nullish v \<and> x = lookup_prop v k"
  by (auto simp: get_prop_def)

lemma get_prop_not_nullish [simp]: "\<not> nullish v \<Longrightarrow> get_prop v k = Inr (lookup_prop v k)"
  by (simp add: get_prop_def)

lemma truthy_not_nullish: "truthy v \<Longrightarrow> \<not> nullish v"
  by (cases v) simp_all

lemma strict_eq_imp_eq: "strict_eq a b \<Longrightarrow> a = b"
  by (simp add: strict_eq_def)

lemma strict_eq_JStr [simp]: "strict_eq a (JStr s) \<longleftrightarrow> a = JStr s"
  by (auto simp: strict_eq_def)

lemma filterR_sound:
  "filterR p xs = Inr ys \<Longrightarrow> y \<in> set ys \<Longrightarrow> y \<in> set xs \<and> (\<exists>b. p y = Inr b \<and> truthy b)"
proof (induction xs arbitrary: ys)
  case Nil
  then show ?case by simp
next
  case (Cons x xs)
  from Cons.prems(1) obtain b zs where b: "p x = Inr b" and zs: "filterR p xs = Inr zs"
    and ys: "ys = (if truthy b then x # zs else zs)"
    by (auto simp: bindR_eq_Inr)
  show ?case
  proof (cases "y \<in> set zs")
    case True
    with Cons.IH [OF zs] show ?thesis by simp
  next
    case False
    with ys Cons.prems(2) have "truthy b" "y = x" by (auto split: if_splits)
    with b show ?thesis by auto
  qed
qed

lemma mapR_list_all2: "mapR f xs = Inr ys \<Longrightarrow> list_all2 (\<lambda>x y. f x = Inr y) xs ys"
proof (induction xs arbitrary: ys)
  case Nil
  then show ?case by simp
next
  case (Cons x xs)
  then show ?case by (auto simp: bindR_eq_Inr)
qed

lemma mapR_total: "(\<And>x. x \<in> set xs \<Longrightarrow> \<exists>y. f x = Inr y) \<Longrightarrow> \<exists>ys. mapR f xs = Inr ys"
proof (induction xs)
  case Nil
  then show ?case by simp
next
  case (Cons x xs)
  then obtain y where "f x = Inr y" by auto
  moreover from Cons obtain ys where "mapR f xs = Inr ys" by auto
  ultimately show ?case by simp
qed

lemma mapR_eq_map: "(\<And>x. x \<in> set xs \<Longrightarrow> f x = Inr (g x)) \<Longrightarrow> mapR f xs = Inr (map g xs)"
  by (induction xs) simp_all

lemma everyR_all:
  "(\<And>x. x \<in> set xs \<Longrightarrow> p x = Inr (JBool (q x))) \<Longrightarrow> everyR p xs = Inr (JBool (\<forall>x \<in> set xs. q x))"
  by (induction xs) auto

lemma lookup_or_undefined_Cons [simp]:
  "lookup_or_undefined ((k, v) # kvs) k' = (if k = k' then v else lookup_or_undefined kvs k')"
  by (simp add: lookup_or_undefined_def)

lemma lookup_or_undefined_Nil [simp]: "lookup_or_undefined [] k = JUndefined"
  by (simp add: lookup_or_undefined_def)

lemma js_add_strings [simp]: "js_add (JStr s) (JStr t) = Inr (JStr (s @ t))"
  by (simp add: js_add_def)

lemma js_gt_JNum [simp]: "js_gt (JNum m) (JNum n) = Inr (n < m)"
  by (simp add: js_gt_def)

lemmas example_defs =
  example_imported_def example_template_part_def example_pattern_post_def example_synced_post_def
  example_categories_map_def example_category_def

lemma options_of_returns: "opts \<noteq> JNull \<Longrightarrow> \<exists>options. options_of opts = Inr options"
  by (simp add: options_of_def)

lemma lookup_or_undefined_append:
  "k \<notin> fst ` set xs \<Longrightarrow> lookup_or_undefined (xs @ ys) k = lookup_or_undefined ys k"
  by (induction xs) (auto simp: lookup_or_undefined_def)

lemma searchItems_of_nothingD:
  "searchItems_of_nothing d \<Longrightarrow> searchItems d [] search config = Inr []"
  by (simp add: searchItems_of_nothing_def)

lemma filter_sync_status_Nil: "filter_sync_status syncStatus [] = Inr []"
  by (simp add: filter_sync_status_def)

lemma filter_sync_status_sound:
  assumes "filter_sync_status syncStatus xs = Inr ys" and "truthy syncStatus" and "p \<in> set ys"
  shows "strict_eq (lookup_prop p ''syncStatus'') syncStatus"
proof -
  from assms(1,2) have "filterR (\<lambda>pattern. bindR (get_prop pattern ''syncStatus'') (\<lambda>s.
              Inr (JBool (strict_eq s syncStatus)))) xs = Inr ys"
    by (simp add: filter_sync_status_def)
  from filterR_sound [OF this assms(3)] obtain b where
    "bindR (get_prop p ''syncStatus'') (\<lambda>s. Inr (JBool (strict_eq s syncStatus))) = Inr b"
    and "truthy b"
    by blast
  then show ?thesis by (auto simp: bindR_eq_Inr get_prop_eq_Inr)
qed

section \<open>The transforms of the quote block: properties\<close>

text \<open>
  Claim C3. The transform of a quote to a pullquote is offered exactly when every inner
  block of the quote is a paragraph: for a block whose \<^verbatim>\<open>innerBlocks\<close> is an array of
  blocks, \<^verbatim>\<open>isMatch\<close> returns \<^verbatim>\<open>true\<close> if and only if every element has the name
  \<^verbatim>\<open>core/paragraph\<close>; for an empty array that is \<^verbatim>\<open>true\<close>.
\<close>

theorem quote_to_pullquote_isMatch:
  assumes "lookup_prop block ''innerBlocks'' = JArr blocks"
    and "\<forall>b \<in> set blocks. \<not> nullish b"
  shows "to_pullquote_isMatch attributes block =
           Inr (JBool (\<forall>b \<in> set blocks. lookup_prop b ''name'' = JStr ''core/paragraph''))"
proof -
  from assms(1) have "\<not> nullish block" by (cases block) auto
  moreover have "everyR (\<lambda>inner. bindR (get_prop inner ''name'') (\<lambda>name.
        Inr (JBool (strict_eq name (JStr ''core/paragraph''))))) blocks =
      Inr (JBool (\<forall>b \<in> set blocks. lookup_prop b ''name'' = JStr ''core/paragraph''))"
    using assms(2) by (intro everyR_all) simp
  ultimately show ?thesis
    using assms(1) by (simp add: to_pullquote_isMatch_def)
qed

text \<open>
  The theorem at a quote with a paragraph and a list (no match), at a quote without inner
  blocks and at a quote with one paragraph (match).
\<close>

theorem quote_to_pullquote_isMatch_witness:
  "to_pullquote_isMatch (JObj [(''attribution'', JStr ''Ada'')]) example_quote = Inr (JBool False)
   \<and> to_pullquote_isMatch JUndefined (JObj [(''innerBlocks'', JArr [])]) = Inr (JBool True)
   \<and> to_pullquote_isMatch JUndefined
        (JObj [(''innerBlocks'', JArr [JObj [(''name'', JStr ''core/paragraph'')]])])
      = Inr (JBool True)"
  using quote_to_pullquote_isMatch [of example_quote
      "[ JObj [(''name'', JStr ''core/paragraph''), (''innerBlocks'', JArr [])],
         JObj [(''name'', JStr ''core/list''), (''innerBlocks'', JArr [])] ]"
      "JObj [(''attribution'', JStr ''Ada'')]"]
    quote_to_pullquote_isMatch [of "JObj [(''innerBlocks'', JArr [])]" "[]" JUndefined]
    quote_to_pullquote_isMatch [of "JObj [(''innerBlocks'', JArr [JObj [(''name'', JStr ''core/paragraph'')]])]"
       "[JObj [(''name'', JStr ''core/paragraph'')]]" JUndefined]
  by (simp add: example_quote_def lookup_or_undefined_def)




section \<open>The projections: properties\<close>

text \<open>
  What a call that returns has read, and the object it has built.
\<close>

lemma createTemplatePartId_cases:
  "createTemplatePartId theme slug = Inr v \<Longrightarrow>
     (truthy theme \<and> truthy slug \<longrightarrow>
        (\<exists>prefix. js_add theme (JStr ''//'') = Inr prefix \<and> js_add prefix slug = Inr v))
     \<and> (\<not> (truthy theme \<and> truthy slug) \<longrightarrow> v = JNull)"
  by (auto simp: createTemplatePartId_def bindR_eq_Inr split: if_splits)

lemma createTemplatePartId_returns:
  assumes "nullish theme \<or> is_string theme" and "nullish slug \<or> is_string slug"
  shows "\<exists>v. createTemplatePartId theme slug = Inr v"
proof (cases "truthy theme \<and> truthy slug")
  case True
  with assms obtain t s where "theme = JStr t" and "slug = JStr s"
    by (cases theme; cases slug) auto
  then show ?thesis by (simp add: createTemplatePartId_def)
next
  case False
  then show ?thesis by (auto simp: createTemplatePartId_def)
qed

lemma createTemplatePartId_strings:
  "t \<noteq> [] \<Longrightarrow> s \<noteq> [] \<Longrightarrow>
     createTemplatePartId (JStr t) (JStr s) = Inr (JStr (t @ ''//'' @ s))"
  by (simp add: createTemplatePartId_def)

lemma templatePartToPattern_Inr:
  assumes "templatePartToPattern d tp = Inr p"
  obtains v where
    "\<not> nullish tp" "\<not> nullish (lookup_prop tp ''content'')" "\<not> nullish (lookup_prop tp ''title'')"
    "createTemplatePartId (lookup_prop tp ''theme'') (lookup_prop tp ''slug'') = Inr v"
    "p = JObj
       [ (''blocks'', parse d (lookup_prop (lookup_prop tp ''content'') ''raw'')),
         (''categories'', JArr [lookup_prop tp ''area'']),
         (''description'', js_or (lookup_prop tp ''description'') (JStr [])),
         (''isCustom'', JBool (strict_eq (lookup_prop tp ''source'') (JStr ''custom''))),
         (''keywords'', js_or (lookup_prop tp ''keywords'') (JArr [])),
         (''id'', v),
         (''name'', v),
         (''title'', decodeEntities d (lookup_prop (lookup_prop tp ''title'') ''rendered'')),
         (''type'', lookup_prop tp ''type''),
         (''templatePart'', tp) ]"
  using assms unfolding templatePartToPattern_def
  by (auto simp: bindR_eq_Inr get_prop_eq_Inr)

lemma templatePartToPattern_returns:
  assumes "template_part_record tp"
  shows "\<exists>p. templatePartToPattern d tp = Inr p"
proof -
  from assms have "nullish (lookup_prop tp ''theme'') \<or> is_string (lookup_prop tp ''theme'')"
    and "nullish (lookup_prop tp ''slug'') \<or> is_string (lookup_prop tp ''slug'')"
    by (simp_all add: template_part_record_def)
  then obtain v where
    "createTemplatePartId (lookup_prop tp ''theme'') (lookup_prop tp ''slug'') = Inr v"
    using createTemplatePartId_returns by blast
  with assms show ?thesis
    by (simp add: templatePartToPattern_def template_part_record_def)
qed

lemma templatePartToPattern_keys:
  assumes "templatePartToPattern d tp = Inr p"
  shows "own_keys p = {''blocks'', ''categories'', ''description'', ''isCustom'', ''keywords'',
                       ''id'', ''name'', ''title'', ''type'', ''templatePart''}"
  using assms by (rule templatePartToPattern_Inr) (simp add: own_keys_def)

lemma category_slug_map:
  assumes "\<forall>(k, v) \<in> set m. truthy v"
  shows "category_slug (JMap m) pid =
           Inr (case find (\<lambda>(k, v). strict_eq k pid) m of
                  Some (k, v) \<Rightarrow> lookup_prop v ''slug'' | None \<Rightarrow> pid)"
proof (cases "find (\<lambda>(k, v). strict_eq k pid) m")
  case None
  then show ?thesis by (simp add: category_slug_def)
next
  case (Some kv)
  then obtain i where "i < length m" and "kv = m ! i"
    unfolding find_Some_iff by blast
  then have "kv \<in> set m" by simp
  with assms have "truthy (snd kv)" by auto
  with Some show ?thesis
    by (cases kv) (simp add: category_slug_def truthy_not_nullish)
qed

lemma category_slug_no_map: "\<not> truthy cats \<Longrightarrow> category_slug cats pid = Inr pid"
  by (simp add: category_slug_def)

lemma category_slug_returns:
  assumes "\<not> truthy cats \<or> is_map cats"
  shows "\<exists>v. category_slug cats pid = Inr v"
proof (cases "truthy cats")
  case False
  then show ?thesis by (simp add: category_slug_def)
next
  case True
  with assms obtain m where m: "cats = JMap m" by (cases cats) auto
  show ?thesis
  proof (cases "truthy (case find (\<lambda>(k, v). strict_eq k pid) m of Some (k, v) \<Rightarrow> v | None \<Rightarrow> JUndefined)")
    case True
    then show ?thesis by (simp add: m category_slug_def truthy_not_nullish)
  next
    case False
    then show ?thesis by (simp add: m category_slug_def)
  qed
qed

lemma categories_spread_empty:
  "lookup_prop pb ''wp_pattern_category'' = JArr [] \<Longrightarrow> categories_spread pb cats = Inr []"
  by (simp add: categories_spread_def)

lemma categories_spread_nonempty:
  assumes "lookup_prop pb ''wp_pattern_category'' = JArr ids" and "ids \<noteq> []"
  shows "categories_spread pb cats =
           bindR (mapR (category_slug cats) ids) (\<lambda>slugs. Inr [(''categories'', JArr slugs)])"
  using assms by (simp add: categories_spread_def)

lemma categories_spread_keys:
  "categories_spread pb cats = Inr spread \<Longrightarrow>
     fst ` set spread =
       (if js_gt (lookup_prop (lookup_prop pb ''wp_pattern_category'') ''length'') (JNum 0) = Inr True
        then {''categories''} else {})"
  by (auto simp: categories_spread_def bindR_eq_Inr get_prop_eq_Inr split: if_splits)

lemma categories_spread_returns:
  assumes "is_array (lookup_prop pb ''wp_pattern_category'')" and "\<not> truthy cats \<or> is_map cats"
  shows "\<exists>spread. categories_spread pb cats = Inr spread"
proof -
  from assms(1) obtain ids where ids: "lookup_prop pb ''wp_pattern_category'' = JArr ids"
    by (cases "lookup_prop pb ''wp_pattern_category''") auto
  show ?thesis
  proof (cases "ids = []")
    case True
    with ids show ?thesis by (simp add: categories_spread_empty)
  next
    case False
    from assms(2) obtain slugs where "mapR (category_slug cats) ids = Inr slugs"
      using mapR_total [of ids "category_slug cats"] category_slug_returns by blast
    with ids False show ?thesis by (simp add: categories_spread_nonempty)
  qed
qed

lemma patternBlockToPattern_Inr:
  assumes "patternBlockToPattern d pb cats = Inr p"
  shows "\<exists>spread.
    categories_spread pb cats = Inr spread
    \<and> p = JObj
       ([ (''blocks'', parse d (lookup_prop (lookup_prop pb ''content'') ''raw'')) ] @ spread @
        [ (''id'', lookup_prop pb ''id''),
          (''name'', lookup_prop pb ''slug''),
          (''syncStatus'',
             if truthy (lookup_prop pb ''wp_pattern_sync_status'')
             then lookup_prop pb ''wp_pattern_sync_status''
             else lookup_prop (SYNC_TYPES d) ''full''),
          (''title'', lookup_prop (lookup_prop pb ''title'') ''raw''),
          (''type'', USER_PATTERNS d),
          (''patternBlock'', pb) ])"
  using assms unfolding patternBlockToPattern_def
  by (auto simp: bindR_eq_Inr get_prop_eq_Inr split: if_splits)

lemma patternBlockToPattern_returns:
  assumes "pattern_post_record pb" and "\<not> truthy cats \<or> is_map cats"
    and "truthy (lookup_prop pb ''wp_pattern_sync_status'') \<or> \<not> nullish (SYNC_TYPES d)"
  shows "\<exists>p. patternBlockToPattern d pb cats = Inr p"
proof -
  from assms(1,2) obtain spread where "categories_spread pb cats = Inr spread"
    unfolding pattern_post_record_def by (blast dest: categories_spread_returns)
  with assms(1,3) show ?thesis
    by (auto simp: patternBlockToPattern_def pattern_post_record_def)
qed

lemma patternBlockToPattern_keys:
  assumes "patternBlockToPattern d pb cats = Inr p"
    and "lookup_prop pb ''wp_pattern_category'' = JArr ids"
  shows "own_keys p =
           {''blocks'', ''id'', ''name'', ''syncStatus'', ''title'', ''type'', ''patternBlock''}
           \<union> (if ids = [] then {} else {''categories''})"
proof -
  from patternBlockToPattern_Inr [OF assms(1)] obtain spread where
    spread: "categories_spread pb cats = Inr spread"
    and keys: "own_keys p = insert ''blocks'' (fst ` set spread \<union>
       {''id'', ''name'', ''syncStatus'', ''title'', ''type'', ''patternBlock''})"
    by (auto simp: own_keys_def)
  from categories_spread_keys [OF spread] assms(2)
  have "fst ` set spread = (if ids = [] then {} else {''categories''})" by simp
  with keys show ?thesis by auto
qed

text \<open>
  Claim C1, as the sources have it. The claim gives every pattern the nine fields
  \<^verbatim>\<open>id, name, title, blocks, categories, keywords, syncStatus, type, isCustom\<close>. The two
  projections build other objects. A template part becomes an object with exactly the
  fields \<^verbatim>\<open>blocks, categories, description, isCustom, keywords, id, name, title, type,
  templatePart\<close>: there is no \<^verbatim>\<open>syncStatus\<close>. A pattern post becomes an object with
  exactly the fields \<^verbatim>\<open>blocks, id, name, syncStatus, title, type, patternBlock\<close>, and
  \<^verbatim>\<open>categories\<close> in addition when its \<^verbatim>\<open>wp_pattern_category\<close> is a non-empty array:
  there is no \<^verbatim>\<open>keywords\<close> and no \<^verbatim>\<open>isCustom\<close>. Both projections return for every
  record of the store.
\<close>

theorem pattern_fields:
  "(templatePartToPattern d tp = Inr p \<longrightarrow>
      own_keys p = {''blocks'', ''categories'', ''description'', ''isCustom'', ''keywords'',
                    ''id'', ''name'', ''title'', ''type'', ''templatePart''})
   \<and> (template_part_record tp \<longrightarrow> (\<exists>p. templatePartToPattern d tp = Inr p))
   \<and> (patternBlockToPattern d pb cats = Inr q \<and> lookup_prop pb ''wp_pattern_category'' = JArr ids \<longrightarrow>
      own_keys q =
        {''blocks'', ''id'', ''name'', ''syncStatus'', ''title'', ''type'', ''patternBlock''}
        \<union> (if ids = [] then {} else {''categories''}))
   \<and> (pattern_post_record pb \<and> (\<not> truthy cats \<or> is_map cats)
        \<and> (truthy (lookup_prop pb ''wp_pattern_sync_status'') \<or> \<not> nullish (SYNC_TYPES d)) \<longrightarrow>
      (\<exists>q. patternBlockToPattern d pb cats = Inr q))"
proof (intro conjI impI)
  show "own_keys p = {''blocks'', ''categories'', ''description'', ''isCustom'', ''keywords'',
                      ''id'', ''name'', ''title'', ''type'', ''templatePart''}"
    if "templatePartToPattern d tp = Inr p"
    using that by (rule templatePartToPattern_keys)
  show "\<exists>p. templatePartToPattern d tp = Inr p" if "template_part_record tp"
    using that by (rule templatePartToPattern_returns)
  show "own_keys q =
        {''blocks'', ''id'', ''name'', ''syncStatus'', ''title'', ''type'', ''patternBlock''}
        \<union> (if ids = [] then {} else {''categories''})"
    if "patternBlockToPattern d pb cats = Inr q \<and> lookup_prop pb ''wp_pattern_category'' = JArr ids"
    using that by (elim conjE) (rule patternBlockToPattern_keys)
  show "\<exists>q. patternBlockToPattern d pb cats = Inr q"
    if "pattern_post_record pb \<and> (\<not> truthy cats \<or> is_map cats)
        \<and> (truthy (lookup_prop pb ''wp_pattern_sync_status'') \<or> \<not> nullish (SYNC_TYPES d))"
    using that by (elim conjE) (rule patternBlockToPattern_returns)
qed

text \<open>
  The claim as it is written fails on the example records: the pattern of the template
  part has no \<^verbatim>\<open>syncStatus\<close>, and the pattern of the post without categories has no
  \<^verbatim>\<open>keywords\<close>, no \<^verbatim>\<open>isCustom\<close> and no \<^verbatim>\<open>categories\<close>.
\<close>

theorem pattern_fields_counterexample:
  "templatePartToPattern example_imported example_template_part =
     Inr (JObj
       [ (''blocks'',
            JArr [JObj [(''name'', JStr ''core/freeform''), (''content'', JStr ''<p>Hi</p>'')]]),
         (''categories'', JArr [JStr ''header'']),
         (''description'', JStr []),
         (''isCustom'', JBool True),
         (''keywords'', JArr []),
         (''id'', JStr ''twentytwenty//header''),
         (''name'', JStr ''twentytwenty//header''),
         (''title'', JStr ''Header''),
         (''type'', JStr ''wp_template_part''),
         (''templatePart'', example_template_part) ])
   \<and> ''syncStatus'' \<notin>
       own_keys (projr (templatePartToPattern example_imported example_template_part))
   \<and> patternBlockToPattern example_imported example_synced_post example_categories_map =
     Inr (JObj
       [ (''blocks'',
            JArr [JObj [(''name'', JStr ''core/freeform''), (''content'', JStr ''<p>Bye</p>'')]]),
         (''id'', JNum 13),
         (''name'', JStr ''footer-note''),
         (''syncStatus'', JStr ''fully''),
         (''title'', JStr ''Footer note''),
         (''type'', JStr ''wp_block''),
         (''patternBlock'', example_synced_post) ])
   \<and> ''keywords'' \<notin>
       own_keys (projr (patternBlockToPattern example_imported example_synced_post
                          example_categories_map))
   \<and> ''isCustom'' \<notin>
       own_keys (projr (patternBlockToPattern example_imported example_synced_post
                          example_categories_map))
   \<and> ''categories'' \<notin>
       own_keys (projr (patternBlockToPattern example_imported example_synced_post
                          example_categories_map))"
  by (simp add: templatePartToPattern_def patternBlockToPattern_def categories_spread_def
      createTemplatePartId_def example_defs own_keys_def js_or_def)

text \<open>
  The theorem at the example template part and at the two example posts.
\<close>

theorem pattern_fields_witness:
  "(\<exists>p. templatePartToPattern example_imported example_template_part = Inr p
      \<and> own_keys p = {''blocks'', ''categories'', ''description'', ''isCustom'', ''keywords'',
                      ''id'', ''name'', ''title'', ''type'', ''templatePart''})
   \<and> (\<exists>q. patternBlockToPattern example_imported example_pattern_post example_categories_map = Inr q
      \<and> own_keys q =
          {''blocks'', ''id'', ''name'', ''syncStatus'', ''title'', ''type'', ''patternBlock''}
          \<union> {''categories''})
   \<and> (\<exists>q. patternBlockToPattern example_imported example_synced_post example_categories_map = Inr q
      \<and> own_keys q =
          {''blocks'', ''id'', ''name'', ''syncStatus'', ''title'', ''type'', ''patternBlock''})"
proof -
  note fields = pattern_fields [where d = example_imported and cats = example_categories_map]
  note keys_tp = fields [THEN conjunct1, rule_format]
  note returns_tp = fields [THEN conjunct2, THEN conjunct1, rule_format]
  note keys_pb = fields [THEN conjunct2, THEN conjunct2, THEN conjunct1, rule_format]
  note returns_pb = fields [THEN conjunct2, THEN conjunct2, THEN conjunct2, rule_format]
  have "template_part_record example_template_part"
    by (simp add: template_part_record_def example_defs)
  from returns_tp [OF this]
  obtain p where p: "templatePartToPattern example_imported example_template_part = Inr p" ..
  have "pattern_post_record example_pattern_post
      \<and> (\<not> truthy example_categories_map \<or> is_map example_categories_map)
      \<and> (truthy (lookup_prop example_pattern_post ''wp_pattern_sync_status'')
          \<or> \<not> nullish (SYNC_TYPES example_imported))"
    by (simp add: pattern_post_record_def example_defs)
  from returns_pb [OF this]
  obtain q where
    q: "patternBlockToPattern example_imported example_pattern_post example_categories_map = Inr q" ..
  have "pattern_post_record example_synced_post
      \<and> (\<not> truthy example_categories_map \<or> is_map example_categories_map)
      \<and> (truthy (lookup_prop example_synced_post ''wp_pattern_sync_status'')
          \<or> \<not> nullish (SYNC_TYPES example_imported))"
    by (simp add: pattern_post_record_def example_defs)
  from returns_pb [OF this]
  obtain q' where
    q': "patternBlockToPattern example_imported example_synced_post example_categories_map = Inr q'" ..
  have ids: "lookup_prop example_pattern_post ''wp_pattern_category'' = JArr [JNum 7, JNum 9]"
    and ids': "lookup_prop example_synced_post ''wp_pattern_category'' = JArr []"
    by (simp_all add: example_defs)
  have "own_keys q =
          {''blocks'', ''id'', ''name'', ''syncStatus'', ''title'', ''type'', ''patternBlock''}
          \<union> {''categories''}"
    using keys_pb [OF conjI [OF q ids]] by (simp only: list.distinct if_False)
  moreover have "own_keys q' =
          {''blocks'', ''id'', ''name'', ''syncStatus'', ''title'', ''type'', ''patternBlock''}"
    using keys_pb [OF conjI [OF q' ids']] by (simp only: if_True simp_thms Un_empty_right)
  ultimately show ?thesis using p q q' keys_tp [OF p] by (intro conjI exI)
qed

text \<open>
  Claim C5. The derived fields of the pattern of a template part follow its record:
  \<^verbatim>\<open>id\<close> and \<^verbatim>\<open>name\<close> are equal; they are \<^verbatim>\<open>theme + '//' + slug\<close> when the theme and
  the slug are both truthy (for two non-empty strings, their concatenation around
  \<^verbatim>\<open>//\<close>) and \<^verbatim>\<open>null\<close> otherwise; \<^verbatim>\<open>isCustom\<close> is true exactly when the source is
  \<^verbatim>\<open>custom\<close>; the title is \<^verbatim>\<open>decodeEntities\<close> of \<^verbatim>\<open>title.rendered\<close>; the type is the
  type of the record. The projection returns for every record of the store.
\<close>

theorem template_part_derived_fields:
  "(template_part_record tp \<longrightarrow> (\<exists>p. templatePartToPattern d tp = Inr p))
   \<and> (templatePartToPattern d tp = Inr p \<longrightarrow>
        lookup_prop p ''id'' = lookup_prop p ''name''
      \<and> (truthy (lookup_prop tp ''theme'') \<and> truthy (lookup_prop tp ''slug'') \<longrightarrow>
           (\<exists>prefix. js_add (lookup_prop tp ''theme'') (JStr ''//'') = Inr prefix
              \<and> js_add prefix (lookup_prop tp ''slug'') = Inr (lookup_prop p ''id'')))
      \<and> (\<forall>t s. lookup_prop tp ''theme'' = JStr t \<and> lookup_prop tp ''slug'' = JStr s
                \<and> t \<noteq> [] \<and> s \<noteq> [] \<longrightarrow>
           lookup_prop p ''id'' = JStr (t @ ''//'' @ s))
      \<and> (\<not> (truthy (lookup_prop tp ''theme'') \<and> truthy (lookup_prop tp ''slug'')) \<longrightarrow>
           lookup_prop p ''id'' = JNull)
      \<and> lookup_prop p ''isCustom'' = JBool (lookup_prop tp ''source'' = JStr ''custom'')
      \<and> lookup_prop p ''title'' =
           decodeEntities d (lookup_prop (lookup_prop tp ''title'') ''rendered'')
      \<and> lookup_prop p ''type'' = lookup_prop tp ''type'')"
proof (intro conjI impI)
  show "\<exists>p. templatePartToPattern d tp = Inr p" if "template_part_record tp"
    using that by (rule templatePartToPattern_returns)
next
  assume "templatePartToPattern d tp = Inr p"
  then obtain v where
    v: "createTemplatePartId (lookup_prop tp ''theme'') (lookup_prop tp ''slug'') = Inr v"
    and p: "p = JObj
       [ (''blocks'', parse d (lookup_prop (lookup_prop tp ''content'') ''raw'')),
         (''categories'', JArr [lookup_prop tp ''area'']),
         (''description'', js_or (lookup_prop tp ''description'') (JStr [])),
         (''isCustom'', JBool (strict_eq (lookup_prop tp ''source'') (JStr ''custom''))),
         (''keywords'', js_or (lookup_prop tp ''keywords'') (JArr [])),
         (''id'', v),
         (''name'', v),
         (''title'', decodeEntities d (lookup_prop (lookup_prop tp ''title'') ''rendered'')),
         (''type'', lookup_prop tp ''type''),
         (''templatePart'', tp) ]"
    by (rule templatePartToPattern_Inr)
  have id: "lookup_prop p ''id'' = v" and name: "lookup_prop p ''name'' = v"
    by (simp_all add: p)
  from id name show "lookup_prop p ''id'' = lookup_prop p ''name''" by simp
  show "lookup_prop p ''isCustom'' = JBool (lookup_prop tp ''source'' = JStr ''custom'')"
    by (simp add: p)
  show "lookup_prop p ''title'' =
          decodeEntities d (lookup_prop (lookup_prop tp ''title'') ''rendered'')"
    by (simp add: p)
  show "lookup_prop p ''type'' = lookup_prop tp ''type''"
    by (simp add: p)
  show "\<forall>t s. lookup_prop tp ''theme'' = JStr t \<and> lookup_prop tp ''slug'' = JStr s
                \<and> t \<noteq> [] \<and> s \<noteq> [] \<longrightarrow>
           lookup_prop p ''id'' = JStr (t @ ''//'' @ s)"
    using v id by (auto simp: createTemplatePartId_strings)
  show "\<exists>prefix. js_add (lookup_prop tp ''theme'') (JStr ''//'') = Inr prefix
          \<and> js_add prefix (lookup_prop tp ''slug'') = Inr (lookup_prop p ''id'')"
    if "truthy (lookup_prop tp ''theme'') \<and> truthy (lookup_prop tp ''slug'')"
    using createTemplatePartId_cases [OF v] that id by simp
  show "lookup_prop p ''id'' = JNull"
    if "\<not> (truthy (lookup_prop tp ''theme'') \<and> truthy (lookup_prop tp ''slug''))"
    using createTemplatePartId_cases [OF v] that id by simp
qed

text \<open>
  The theorem at the example template part (theme \<^verbatim>\<open>twentytwenty\<close>, slug \<^verbatim>\<open>header\<close>,
  source \<^verbatim>\<open>custom\<close>) and at a template part without a theme.
\<close>

theorem template_part_derived_fields_witness:
  "(\<exists>p. templatePartToPattern example_imported example_template_part = Inr p
      \<and> lookup_prop p ''id'' = JStr ''twentytwenty//header''
      \<and> lookup_prop p ''name'' = JStr ''twentytwenty//header''
      \<and> lookup_prop p ''isCustom'' = JBool True
      \<and> lookup_prop p ''title'' = JStr ''Header''
      \<and> lookup_prop p ''type'' = JStr ''wp_template_part'')
   \<and> (\<exists>p. templatePartToPattern example_imported example_orphan_part = Inr p
      \<and> lookup_prop p ''id'' = JNull
      \<and> lookup_prop p ''name'' = JNull
      \<and> lookup_prop p ''isCustom'' = JBool False)"
proof -
  note header = template_part_derived_fields
    [where d = example_imported and tp = example_template_part]
  note orphan = template_part_derived_fields
    [where d = example_imported and tp = example_orphan_part]
  have "template_part_record example_template_part"
    by (simp add: template_part_record_def example_defs)
  from header [THEN conjunct1, rule_format, OF this]
  obtain p where p: "templatePartToPattern example_imported example_template_part = Inr p" ..
  note fields = header [THEN conjunct2, rule_format, OF p]
  note same = fields [THEN conjunct1]
  note strings = fields [THEN conjunct2, THEN conjunct2, THEN conjunct1, rule_format]
  note rest = fields [THEN conjunct2, THEN conjunct2, THEN conjunct2, THEN conjunct2]
  have "lookup_prop example_template_part ''theme'' = JStr ''twentytwenty''
      \<and> lookup_prop example_template_part ''slug'' = JStr ''header''
      \<and> ''twentytwenty'' \<noteq> [] \<and> ''header'' \<noteq> []"
    by (simp add: example_defs)
  from strings [OF this] have id: "lookup_prop p ''id'' = JStr ''twentytwenty//header''"
    by simp
  with same have name: "lookup_prop p ''name'' = JStr ''twentytwenty//header''"
    by simp
  from rest have rest: "lookup_prop p ''isCustom'' = JBool True"
    "lookup_prop p ''title'' = JStr ''Header''"
    "lookup_prop p ''type'' = JStr ''wp_template_part''"
    by (simp_all add: example_defs)
  have "template_part_record example_orphan_part"
    by (simp add: template_part_record_def example_orphan_part_def)
  from orphan [THEN conjunct1, rule_format, OF this]
  obtain p' where p': "templatePartToPattern example_imported example_orphan_part = Inr p'" ..
  note fields' = orphan [THEN conjunct2, rule_format, OF p']
  note same' = fields' [THEN conjunct1]
  note null' = fields' [THEN conjunct2, THEN conjunct2, THEN conjunct2, THEN conjunct1, rule_format]
  note rest' = fields' [THEN conjunct2, THEN conjunct2, THEN conjunct2, THEN conjunct2]
  have "\<not> (truthy (lookup_prop example_orphan_part ''theme'')
           \<and> truthy (lookup_prop example_orphan_part ''slug''))"
    by (simp add: example_orphan_part_def)
  from null' [OF this] have id': "lookup_prop p' ''id'' = JNull" .
  with same' have name': "lookup_prop p' ''name'' = JNull" by simp
  from rest' have custom': "lookup_prop p' ''isCustom'' = JBool False"
    by (simp add: example_orphan_part_def)
  from p id name rest p' id' name' custom' show ?thesis by (intro conjI exI)
qed

text \<open>
  Claim C10. The pattern of a user pattern post has the property \<^verbatim>\<open>categories\<close> if
  and only if the \<^verbatim>\<open>wp_pattern_category\<close> array of the post is not empty; when it is
  empty the object has no such key, and otherwise \<^verbatim>\<open>categories\<close> is an array of the
  same length.
\<close>

theorem user_pattern_categories_field:
  assumes "patternBlockToPattern d pb cats = Inr p"
    and "lookup_prop pb ''wp_pattern_category'' = JArr ids"
  shows "(''categories'' \<in> own_keys p \<longleftrightarrow> ids \<noteq> [])
    \<and> (ids \<noteq> [] \<longrightarrow>
         (\<exists>slugs. lookup_prop p ''categories'' = JArr slugs \<and> length slugs = length ids))"
proof -
  from patternBlockToPattern_Inr [OF assms(1)] obtain spread where
    spread: "categories_spread pb cats = Inr spread"
    and p: "p = JObj
       ([ (''blocks'', parse d (lookup_prop (lookup_prop pb ''content'') ''raw'')) ] @ spread @
        [ (''id'', lookup_prop pb ''id''),
          (''name'', lookup_prop pb ''slug''),
          (''syncStatus'',
             if truthy (lookup_prop pb ''wp_pattern_sync_status'')
             then lookup_prop pb ''wp_pattern_sync_status''
             else lookup_prop (SYNC_TYPES d) ''full''),
          (''title'', lookup_prop (lookup_prop pb ''title'') ''raw''),
          (''type'', USER_PATTERNS d),
          (''patternBlock'', pb) ])"
    by (elim exE conjE)
  show ?thesis
  proof (cases "ids = []")
    case True
    with spread assms(2) have "spread = []" by (simp add: categories_spread_empty)
    with True show ?thesis by (simp add: p own_keys_def)
  next
    case False
    with spread assms(2) obtain slugs where
      slugs: "mapR (category_slug cats) ids = Inr slugs" and "spread = [(''categories'', JArr slugs)]"
      by (auto simp: categories_spread_nonempty bindR_eq_Inr)
    moreover from slugs have "length slugs = length ids"
      by (auto dest!: mapR_list_all2 list_all2_lengthD)
    ultimately show ?thesis using False by (simp add: p own_keys_def)
  qed
qed

text \<open>
  The theorem at the example post with two categories and at the one with none.
\<close>

theorem user_pattern_categories_field_witness:
  "(\<exists>p. patternBlockToPattern example_imported example_pattern_post example_categories_map = Inr p
      \<and> ''categories'' \<in> own_keys p
      \<and> (\<exists>slugs. lookup_prop p ''categories'' = JArr slugs \<and> length slugs = 2))
   \<and> (\<exists>p. patternBlockToPattern example_imported example_synced_post example_categories_map = Inr p
      \<and> ''categories'' \<notin> own_keys p)"
proof -
  have "pattern_post_record example_pattern_post" "is_map example_categories_map"
    "\<not> nullish (SYNC_TYPES example_imported)"
    by (simp_all add: pattern_post_record_def example_defs)
  then obtain p where
    p: "patternBlockToPattern example_imported example_pattern_post example_categories_map = Inr p"
    using patternBlockToPattern_returns by blast
  have ids: "lookup_prop example_pattern_post ''wp_pattern_category'' = JArr [JNum 7, JNum 9]"
    by (simp add: example_defs)
  have "pattern_post_record example_synced_post" "is_map example_categories_map"
    "\<not> nullish (SYNC_TYPES example_imported)"
    by (simp_all add: pattern_post_record_def example_defs)
  then obtain p' where
    p': "patternBlockToPattern example_imported example_synced_post example_categories_map = Inr p'"
    using patternBlockToPattern_returns by blast
  have ids': "lookup_prop example_synced_post ''wp_pattern_category'' = JArr []"
    by (simp add: example_defs)
  from user_pattern_categories_field [OF p ids]
  have "''categories'' \<in> own_keys p"
    and "\<exists>slugs. lookup_prop p ''categories'' = JArr slugs \<and> length slugs = 2"
    by (simp_all add: numeral_2_eq_2)
  moreover from user_pattern_categories_field [OF p' ids']
  have "''categories'' \<notin> own_keys p'" by simp
  ultimately show ?thesis using p p' by blast
qed

text \<open>
  Claim C4. The categories of a user pattern are its category ids mapped through the
  category map: an id that the map holds is replaced by the \<^verbatim>\<open>slug\<close> of its entry, an
  id that it does not hold is kept. The entries of the map are category objects, so
  they are truthy (the code keeps the id also where \<^verbatim>\<open>get\<close> returns something falsy).
  Without a map every id is kept.
\<close>

theorem user_pattern_category_slugs:
  assumes "patternBlockToPattern d pb cats = Inr p"
    and "lookup_prop pb ''wp_pattern_category'' = JArr ids" and "ids \<noteq> []"
  shows "(\<forall>m. cats = JMap m \<and> (\<forall>(k, v) \<in> set m. truthy v) \<longrightarrow>
            lookup_prop p ''categories'' =
              JArr (map (\<lambda>pid. case find (\<lambda>(k, v). strict_eq k pid) m of
                                  Some (k, v) \<Rightarrow> lookup_prop v ''slug'' | None \<Rightarrow> pid) ids))
    \<and> (\<not> truthy cats \<longrightarrow> lookup_prop p ''categories'' = JArr ids)"
proof -
  from patternBlockToPattern_Inr [OF assms(1)] obtain spread where
    spread: "categories_spread pb cats = Inr spread"
    and p: "p = JObj
       ([ (''blocks'', parse d (lookup_prop (lookup_prop pb ''content'') ''raw'')) ] @ spread @
        [ (''id'', lookup_prop pb ''id''),
          (''name'', lookup_prop pb ''slug''),
          (''syncStatus'',
             if truthy (lookup_prop pb ''wp_pattern_sync_status'')
             then lookup_prop pb ''wp_pattern_sync_status''
             else lookup_prop (SYNC_TYPES d) ''full''),
          (''title'', lookup_prop (lookup_prop pb ''title'') ''raw''),
          (''type'', USER_PATTERNS d),
          (''patternBlock'', pb) ])"
    by (elim exE conjE)
  from spread assms(2,3) obtain slugs where
    slugs: "mapR (category_slug cats) ids = Inr slugs" and "spread = [(''categories'', JArr slugs)]"
    by (auto simp: categories_spread_nonempty bindR_eq_Inr)
  then have cs: "lookup_prop p ''categories'' = JArr slugs" by (simp add: p)
  have "slugs = map (\<lambda>pid. case find (\<lambda>(k, v). strict_eq k pid) m of
                       Some (k, v) \<Rightarrow> lookup_prop v ''slug'' | None \<Rightarrow> pid) ids"
    if "cats = JMap m" and "\<forall>(k, v) \<in> set m. truthy v" for m
  proof -
    have "mapR (category_slug cats) ids =
            Inr (map (\<lambda>pid. case find (\<lambda>(k, v). strict_eq k pid) m of
                       Some (k, v) \<Rightarrow> lookup_prop v ''slug'' | None \<Rightarrow> pid) ids)"
      unfolding that(1) by (rule mapR_eq_map) (rule category_slug_map [OF that(2)])
    with slugs show ?thesis by simp
  qed
  moreover have "slugs = ids" if "\<not> truthy cats"
  proof -
    have "mapR (category_slug cats) ids = Inr (map (\<lambda>pid. pid) ids)"
      by (rule mapR_eq_map) (rule category_slug_no_map [OF that])
    with slugs show ?thesis by simp
  qed
  ultimately show ?thesis using cs by simp
qed

text \<open>
  The theorem at the example post: the map holds the id 7 and not the id 9.
\<close>

theorem user_pattern_category_slugs_witness:
  "\<exists>p. patternBlockToPattern example_imported example_pattern_post example_categories_map = Inr p
      \<and> lookup_prop p ''categories'' = JArr [JStr ''banners'', JNum 9]"
proof -
  have "pattern_post_record example_pattern_post" "is_map example_categories_map"
    "\<not> nullish (SYNC_TYPES example_imported)"
    by (simp_all add: pattern_post_record_def example_defs)
  then obtain p where
    p: "patternBlockToPattern example_imported example_pattern_post example_categories_map = Inr p"
    using patternBlockToPattern_returns by blast
  have ids: "lookup_prop example_pattern_post ''wp_pattern_category'' = JArr [JNum 7, JNum 9]"
    and ne: "[JNum 7, JNum 9] \<noteq> []"
    by (simp_all add: example_defs)
  have m: "example_categories_map = JMap [(JNum 7, example_category)]
      \<and> (\<forall>(k, v) \<in> set [(JNum 7, example_category)]. truthy v)"
    by (simp add: example_defs)
  from user_pattern_category_slugs [OF p ids ne, THEN conjunct1, rule_format, OF m]
  have "lookup_prop p ''categories'' = JArr [JStr ''banners'', JNum 9]"
    by (simp add: example_category_def strict_eq_def)
  with p show ?thesis by (intro conjI exI)
qed

section \<open>The select functions: properties\<close>

text \<open>
  The example \<^verbatim>\<open>searchItems\<close> has the two properties assumed of \<^verbatim>\<open>searchItems\<close>.
\<close>

lemma example_searchItems_selects: "searchItems_selects example_imported"
  unfolding searchItems_selects_def
  by (auto simp: example_imported_def example_searchItems_def dest: filterR_sound)

lemma example_searchItems_of_nothing: "searchItems_of_nothing example_imported"
  by (simp add: searchItems_of_nothing_def example_imported_def example_searchItems_def)

lemmas select_defs =
  selectUserPatterns_def selectPatterns_def selectThemePatterns_def
  selectTemplatePartsAsPatterns_def patternBlockToPattern_def templatePartToPattern_def
  categories_spread_def category_slug_def createTemplatePartId_def filter_sync_status_def
  filterR_indexed_def templatePartHasCategory_def hasOwnProperty_def own_keys_def
  options_of_def js_default_def js_or_def js_coalesce_def strict_eq_def
  example_select_def example_searchItems_def example_filterOutDuplicatesByName_def
  example_theme_pattern_def example_defs

lemma selectUserPatterns_Inr:
  assumes "selectUserPatterns d select opts = Inr r"
  obtains mapped filtered search config found where
    "filter_sync_status (lookup_prop opts ''syncStatus'') mapped = Inr filtered"
    "searchItems d filtered search config = Inr found"
    "lookup_prop r ''patterns'' = JArr found"
  using assms unfolding selectUserPatterns_def
  by (auto simp: bindR_eq_Inr Let_def options_of_def split: if_splits)

lemma selectPatterns_Inr:
  assumes "selectPatterns d select opts = Inr r"
  obtains unfiltered filtered search config found where
    "filter_sync_status (lookup_prop opts ''syncStatus'') unfiltered = Inr filtered"
    "searchItems d filtered search config = Inr found"
    "lookup_prop r ''patterns'' = JArr found"
  using assms unfolding selectPatterns_def
  by (auto simp: bindR_eq_Inr Let_def options_of_def split: if_splits)

lemma sync_status_of_selected:
  assumes "searchItems_selects d" and "truthy syncStatus"
    and "filter_sync_status syncStatus xs = Inr filtered"
    and "searchItems d filtered search config = Inr found"
    and "p \<in> set found"
  shows "strict_eq (lookup_prop p ''syncStatus'') syncStatus"
proof -
  from assms(1,4) have "set found \<subseteq> set filtered"
    unfolding searchItems_selects_def by blast
  with assms(5) have "p \<in> set filtered" by blast
  with assms(3,2) show ?thesis by (rule filter_sync_status_sound)
qed

lemma patternBlockToPattern_syncStatus:
  assumes "patternBlockToPattern d pb cats = Inr q"
  shows "lookup_prop q ''syncStatus'' =
           (if truthy (lookup_prop pb ''wp_pattern_sync_status'')
            then lookup_prop pb ''wp_pattern_sync_status''
            else lookup_prop (SYNC_TYPES d) ''full'')"
proof -
  from patternBlockToPattern_Inr [OF assms] obtain spread where
    spread: "categories_spread pb cats = Inr spread"
    and q: "q = JObj
       ([ (''blocks'', parse d (lookup_prop (lookup_prop pb ''content'') ''raw'')) ] @ spread @
        [ (''id'', lookup_prop pb ''id''),
          (''name'', lookup_prop pb ''slug''),
          (''syncStatus'',
             if truthy (lookup_prop pb ''wp_pattern_sync_status'')
             then lookup_prop pb ''wp_pattern_sync_status''
             else lookup_prop (SYNC_TYPES d) ''full''),
          (''title'', lookup_prop (lookup_prop pb ''title'') ''raw''),
          (''type'', USER_PATTERNS d),
          (''patternBlock'', pb) ])"
    by (elim exE conjE)
  from categories_spread_keys [OF spread] have "''syncStatus'' \<notin> fst ` set spread"
    by (simp split: if_splits)
  then show ?thesis by (simp add: q lookup_or_undefined_append)
qed

text \<open>
  Claim C6. Filtering by sync status is sound: when the \<^verbatim>\<open>syncStatus\<close> option is truthy,
  every pattern that \<^verbatim>\<open>selectPatterns\<close> and \<^verbatim>\<open>selectUserPatterns\<close> return has a
  \<^verbatim>\<open>syncStatus\<close> strictly equal to it; the \<^verbatim>\<open>syncStatus\<close> of a user pattern is the
  \<^verbatim>\<open>wp_pattern_sync_status\<close> of its post when that is truthy and \<^verbatim>\<open>SYNC_TYPES.full\<close>
  otherwise. \<^verbatim>\<open>searchItems\<close>, which runs after the filter, returns items of its list.
\<close>

theorem sync_status_filter_sound:
  assumes "searchItems_selects d" and "truthy (lookup_prop opts ''syncStatus'')"
  shows "(selectPatterns d select opts = Inr r \<longrightarrow>
            (\<exists>found. lookup_prop r ''patterns'' = JArr found
               \<and> (\<forall>p \<in> set found.
                     strict_eq (lookup_prop p ''syncStatus'') (lookup_prop opts ''syncStatus''))))
    \<and> (selectUserPatterns d select opts = Inr r' \<longrightarrow>
            (\<exists>found. lookup_prop r' ''patterns'' = JArr found
               \<and> (\<forall>p \<in> set found.
                     strict_eq (lookup_prop p ''syncStatus'') (lookup_prop opts ''syncStatus''))))
    \<and> (patternBlockToPattern d pb cats = Inr q \<longrightarrow>
          lookup_prop q ''syncStatus'' =
            (if truthy (lookup_prop pb ''wp_pattern_sync_status'')
             then lookup_prop pb ''wp_pattern_sync_status''
             else lookup_prop (SYNC_TYPES d) ''full''))"
proof (intro conjI impI)
  assume "selectPatterns d select opts = Inr r"
  then obtain unfiltered filtered search config found where
    "filter_sync_status (lookup_prop opts ''syncStatus'') unfiltered = Inr filtered"
    "searchItems d filtered search config = Inr found"
    "lookup_prop r ''patterns'' = JArr found"
    by (rule selectPatterns_Inr)
  with assms show "\<exists>found. lookup_prop r ''patterns'' = JArr found
      \<and> (\<forall>p \<in> set found.
            strict_eq (lookup_prop p ''syncStatus'') (lookup_prop opts ''syncStatus''))"
    by (blast intro: sync_status_of_selected)
next
  assume "selectUserPatterns d select opts = Inr r'"
  then obtain mapped filtered search config found where
    "filter_sync_status (lookup_prop opts ''syncStatus'') mapped = Inr filtered"
    "searchItems d filtered search config = Inr found"
    "lookup_prop r' ''patterns'' = JArr found"
    by (rule selectUserPatterns_Inr)
  with assms show "\<exists>found. lookup_prop r' ''patterns'' = JArr found
      \<and> (\<forall>p \<in> set found.
            strict_eq (lookup_prop p ''syncStatus'') (lookup_prop opts ''syncStatus''))"
    by (blast intro: sync_status_of_selected)
next
  assume "patternBlockToPattern d pb cats = Inr q"
  then show "lookup_prop q ''syncStatus'' =
            (if truthy (lookup_prop pb ''wp_pattern_sync_status'')
             then lookup_prop pb ''wp_pattern_sync_status''
             else lookup_prop (SYNC_TYPES d) ''full'')"
    by (rule patternBlockToPattern_syncStatus)
qed

lemma example_selectUserPatterns_fully:
  "\<exists>r x. selectUserPatterns example_imported example_select (JObj [(''syncStatus'', JStr ''fully'')]) = Inr r
     \<and> lookup_prop r ''patterns'' = JArr [x]"
  by (simp add: select_defs Let_def)

lemma example_selectPatterns_fully:
  "\<exists>r x. selectPatterns example_imported example_select (JObj [(''syncStatus'', JStr ''fully'')]) = Inr r
     \<and> lookup_prop r ''patterns'' = JArr [x]"
  by (simp add: select_defs Let_def)

text \<open>
  The theorem at the example registry and the status \<^verbatim>\<open>fully\<close>: of the two posts and
  the theme pattern, both functions return one pattern, the post whose status is empty
  and so defaults to \<^verbatim>\<open>fully\<close>.
\<close>

theorem sync_status_filter_sound_witness:
  "(\<exists>r found. selectPatterns example_imported example_select (JObj [(''syncStatus'', JStr ''fully'')]) = Inr r
      \<and> lookup_prop r ''patterns'' = JArr found \<and> length found = 1
      \<and> list_all (\<lambda>p. lookup_prop p ''syncStatus'' = JStr ''fully'') found)
   \<and> (\<exists>r found. selectUserPatterns example_imported example_select (JObj [(''syncStatus'', JStr ''fully'')]) = Inr r
      \<and> lookup_prop r ''patterns'' = JArr found \<and> length found = 1
      \<and> list_all (\<lambda>p. lookup_prop p ''syncStatus'' = JStr ''fully'') found)
   \<and> (\<exists>q. patternBlockToPattern example_imported example_synced_post example_categories_map = Inr q
      \<and> lookup_prop q ''syncStatus'' = JStr ''fully'')"
proof -
  have opts: "truthy (lookup_prop (JObj [(''syncStatus'', JStr ''fully'')]) ''syncStatus'')"
    by simp
  note sound = sync_status_filter_sound [OF example_searchItems_selects opts,
      where pb = example_synced_post and cats = example_categories_map]
  note all = sound [THEN conjunct1, rule_format]
  note user = sound [THEN conjunct2, THEN conjunct1, rule_format]
  note default = sound [THEN conjunct2, THEN conjunct2, rule_format]
  from example_selectPatterns_fully obtain r x where
    r: "selectPatterns example_imported example_select (JObj [(''syncStatus'', JStr ''fully'')]) = Inr r"
    and x: "lookup_prop r ''patterns'' = JArr [x]"
    by blast
  from all [OF r] x have "lookup_prop x ''syncStatus'' = JStr ''fully''"
    by (auto dest: strict_eq_imp_eq)
  with r x have 1: "\<exists>r found.
      selectPatterns example_imported example_select (JObj [(''syncStatus'', JStr ''fully'')]) = Inr r
      \<and> lookup_prop r ''patterns'' = JArr found \<and> length found = 1
      \<and> list_all (\<lambda>p. lookup_prop p ''syncStatus'' = JStr ''fully'') found"
    by (intro exI [of _ r] exI [of _ "[x]"]) simp
  from example_selectUserPatterns_fully obtain r' x' where
    r': "selectUserPatterns example_imported example_select (JObj [(''syncStatus'', JStr ''fully'')]) = Inr r'"
    and x': "lookup_prop r' ''patterns'' = JArr [x']"
    by blast
  from user [OF r'] x' have "lookup_prop x' ''syncStatus'' = JStr ''fully''"
    by (auto dest: strict_eq_imp_eq)
  with r' x' have 2: "\<exists>r found.
      selectUserPatterns example_imported example_select (JObj [(''syncStatus'', JStr ''fully'')]) = Inr r
      \<and> lookup_prop r ''patterns'' = JArr found \<and> length found = 1
      \<and> list_all (\<lambda>p. lookup_prop p ''syncStatus'' = JStr ''fully'') found"
    by (intro exI [of _ r'] exI [of _ "[x']"]) simp
  have "pattern_post_record example_synced_post" "is_map example_categories_map"
    "\<not> nullish (SYNC_TYPES example_imported)"
    by (simp_all add: pattern_post_record_def example_defs)
  then obtain q where
    q: "patternBlockToPattern example_imported example_synced_post example_categories_map = Inr q"
    using patternBlockToPattern_returns by blast
  from default [OF q] have "lookup_prop q ''syncStatus'' = JStr ''fully''"
    by (simp add: example_defs)
  with q have 3: "\<exists>q. patternBlockToPattern example_imported example_synced_post example_categories_map = Inr q
      \<and> lookup_prop q ''syncStatus'' = JStr ''fully''"
    by blast
  from 1 2 3 show ?thesis by (intro conjI)
qed

lemma known_areas_returns:
  assumes "\<not> truthy areas \<or> (\<exists>as. areas = JArr as \<and> list_all (\<lambda>area. \<not> nullish area) as)"
  shows "\<exists>as names. array_of (js_or areas (JArr [])) = Inr as
            \<and> mapR (\<lambda>area. get_prop area ''area'') as = Inr names"
proof (cases "truthy areas")
  case False
  then show ?thesis by (simp add: js_or_def)
next
  case True
  with assms obtain as where as: "areas = JArr as" and ok: "list_all (\<lambda>area. \<not> nullish area) as"
    by blast
  have "mapR (\<lambda>area. get_prop area ''area'') as = Inr (map (\<lambda>area. lookup_prop area ''area'') as)"
    using ok by (intro mapR_eq_map) (simp add: list_all_iff)
  with as show ?thesis by (simp add: js_or_def)
qed

text \<open>
  Claim C2. When the store has no records (\<^verbatim>\<open>getEntityRecords\<close> returns \<^verbatim>\<open>null\<close> or
  \<^verbatim>\<open>undefined\<close>), \<^verbatim>\<open>selectTemplatePartsAsPatterns\<close> and \<^verbatim>\<open>selectUserPatterns\<close> return,
  and the patterns they return are the empty list. The other answers of the store are
  what the selectors give: the template part areas are missing or an array of area
  objects, the user pattern categories are an object; the options are not \<^verbatim>\<open>null\<close>;
  \<^verbatim>\<open>searchItems\<close> finds nothing in an empty list.
\<close>

theorem no_records_no_patterns:
  assumes "searchItems_of_nothing d" and "opts \<noteq> JNull"
  shows "(nullish (getEntityRecords select (JStr ''postType'') (TEMPLATE_PARTS d)
                     (JObj [(''per_page'', JNum (- 1))]))
          \<and> (\<not> truthy (experimentalGetDefaultTemplatePartAreas select)
              \<or> (\<exists>areas. experimentalGetDefaultTemplatePartAreas select = JArr areas
                    \<and> list_all (\<lambda>area. \<not> nullish area) areas)) \<longrightarrow>
          selectTemplatePartsAsPatterns d select opts =
            Inr (JObj
              [ (''patterns'', JArr []),
                (''isResolving'',
                   getIsResolving select (JStr ''getEntityRecords'')
                     (JArr [JStr ''postType'', JStr ''wp_template_part'',
                            JObj [(''per_page'', JNum (- 1))]])) ]))
    \<and> (nullish (getEntityRecords select (JStr ''postType'') (USER_PATTERNS d)
                     (JObj [(''per_page'', JNum (- 1))]))
          \<and> \<not> nullish (getUserPatternCategories select) \<longrightarrow>
          selectUserPatterns d select opts =
            Inr (JObj
              [ (''patterns'', JArr []),
                (''isResolving'',
                   getIsResolving select (JStr ''getEntityRecords'')
                     (JArr [JStr ''postType'', USER_PATTERNS d,
                            JObj [(''per_page'', JNum (- 1))]])),
                (''categories'',
                   lookup_prop (getUserPatternCategories select) ''patternCategories'') ]))"
proof (intro conjI impI)
  from assms(2) obtain options where options: "options_of opts = Inr options"
    by (blast dest: options_of_returns)
  {
    assume "nullish (getEntityRecords select (JStr ''postType'') (TEMPLATE_PARTS d)
                     (JObj [(''per_page'', JNum (- 1))]))
          \<and> (\<not> truthy (experimentalGetDefaultTemplatePartAreas select)
              \<or> (\<exists>areas. experimentalGetDefaultTemplatePartAreas select = JArr areas
                    \<and> list_all (\<lambda>area. \<not> nullish area) areas))"
    then have none: "nullish (getEntityRecords select (JStr ''postType'') (TEMPLATE_PARTS d)
                     (JObj [(''per_page'', JNum (- 1))]))"
      and "\<not> truthy (experimentalGetDefaultTemplatePartAreas select)
              \<or> (\<exists>areas. experimentalGetDefaultTemplatePartAreas select = JArr areas
                    \<and> list_all (\<lambda>area. \<not> nullish area) areas)"
      by blast+
    from known_areas_returns [OF this(2)] obtain as names where
      "array_of (js_or (experimentalGetDefaultTemplatePartAreas select) (JArr [])) = Inr as"
      "mapR (\<lambda>area. get_prop area ''area'') as = Inr names"
      by blast
    with none options
    show "selectTemplatePartsAsPatterns d select opts =
            Inr (JObj
              [ (''patterns'', JArr []),
                (''isResolving'',
                   getIsResolving select (JStr ''getEntityRecords'')
                     (JArr [JStr ''postType'', JStr ''wp_template_part'',
                            JObj [(''per_page'', JNum (- 1))]])) ])"
      by (simp add: selectTemplatePartsAsPatterns_def Let_def js_coalesce_def) (simp add: searchItems_of_nothingD [OF assms(1)])
  }
  {
    assume "nullish (getEntityRecords select (JStr ''postType'') (USER_PATTERNS d)
                     (JObj [(''per_page'', JNum (- 1))]))
          \<and> \<not> nullish (getUserPatternCategories select)"
    then have none: "\<not> truthy (getEntityRecords select (JStr ''postType'') (USER_PATTERNS d)
                     (JObj [(''per_page'', JNum (- 1))]))"
      and "\<not> nullish (getUserPatternCategories select)"
      by (auto dest: truthy_not_nullish)
    with options
    show "selectUserPatterns d select opts =
            Inr (JObj
              [ (''patterns'', JArr []),
                (''isResolving'',
                   getIsResolving select (JStr ''getEntityRecords'')
                     (JArr [JStr ''postType'', USER_PATTERNS d,
                            JObj [(''per_page'', JNum (- 1))]])),
                (''categories'',
                   lookup_prop (getUserPatternCategories select) ''patternCategories'') ])"
      by (simp add: selectUserPatterns_def Let_def filter_sync_status_Nil)
        (simp add: searchItems_of_nothingD [OF assms(1)])
  }
qed

text \<open>
  The theorem at the registry without records.
\<close>

theorem no_records_no_patterns_witness:
  "selectTemplatePartsAsPatterns example_imported example_empty_select
      (JObj [(''categoryId'', JStr ''header''), (''search'', JStr [])]) =
     Inr (JObj [(''patterns'', JArr []), (''isResolving'', JBool True)])
   \<and> selectUserPatterns example_imported example_empty_select JUndefined =
     Inr (JObj [(''patterns'', JArr []), (''isResolving'', JBool True), (''categories'', JArr [])])"
proof -
  have opts: "JObj [(''categoryId'', JStr ''header''), (''search'', JStr [])] \<noteq> JNull"
    and opts': "JUndefined \<noteq> JNull"
    by simp_all
  note parts = no_records_no_patterns [OF example_searchItems_of_nothing opts,
      where select = example_empty_select, THEN conjunct1, rule_format]
  note user = no_records_no_patterns [OF example_searchItems_of_nothing opts',
      where select = example_empty_select, THEN conjunct2, rule_format]
  have "nullish (getEntityRecords example_empty_select (JStr ''postType'')
           (TEMPLATE_PARTS example_imported) (JObj [(''per_page'', JNum (- 1))]))
      \<and> (\<not> truthy (experimentalGetDefaultTemplatePartAreas example_empty_select)
          \<or> (\<exists>areas. experimentalGetDefaultTemplatePartAreas example_empty_select = JArr areas
                \<and> list_all (\<lambda>area. \<not> nullish area) areas))"
    by (simp add: example_empty_select_def)
  from parts [OF this]
  have 1: "selectTemplatePartsAsPatterns example_imported example_empty_select
      (JObj [(''categoryId'', JStr ''header''), (''search'', JStr [])]) =
     Inr (JObj [(''patterns'', JArr []), (''isResolving'', JBool True)])"
    by (simp add: example_empty_select_def)
  have "nullish (getEntityRecords example_empty_select (JStr ''postType'')
           (USER_PATTERNS example_imported) (JObj [(''per_page'', JNum (- 1))]))
      \<and> \<not> nullish (getUserPatternCategories example_empty_select)"
    by (simp add: example_empty_select_def)
  from user [OF this]
  have 2: "selectUserPatterns example_imported example_empty_select JUndefined =
     Inr (JObj [(''patterns'', JArr []), (''isResolving'', JBool True), (''categories'', JArr [])])"
    by (simp add: example_empty_select_def)
  from 1 2 show ?thesis ..
qed






subsection \<open>Two runs\<close>





subsection \<open>The objects given\<close>



















text \<open>
  On the example the two embeddings of a projection agree: the heap holds the example
  records, and what it holds behind the pattern that the projection on the heap returns
  is the pattern that the projection on values returns, for a \<^verbatim>\<open>parse\<close> that issues the
  same client id. On a record without content (the category object as a template part,
  the template part as a pattern post) both throw.
\<close>

lemma example_heap_holds:
  "value_of 2 example_heap (HRef 2) = example_template_part
   \<and> value_of 2 example_heap (HRef 8) = example_pattern_post
   \<and> value_of 2 example_heap (HRef 4) = example_categories_map
   \<and> value_of 1 example_heap (HRef 9) = SYNC_TYPES example_imported"
  by code_simp

lemma example_embeddings_agree:
  "Inr (value_of 3 (snd (templatePartToPatternH example_heap_imported (HRef 2) example_heap))
          (HRef 15))
     = templatePartToPattern (example_imported\<lparr>parse := example_parse_issuing ''11''\<rparr>)
         example_template_part
   \<and> Inr (value_of 3
            (snd (patternBlockToPatternH example_heap_imported (HRef 8) (HRef 4) example_heap))
            (HRef 15))
     = patternBlockToPattern (example_imported\<lparr>parse := example_parse_issuing ''11''\<rparr>)
         example_pattern_post example_categories_map
   \<and> fst (templatePartToPatternH example_heap_imported (HRef 3) example_heap) = Inl TypeError
   \<and> templatePartToPattern example_imported (value_of 2 example_heap (HRef 3)) = Inl TypeError
   \<and> fst (patternBlockToPatternH example_heap_imported (HRef 2) (HRef 4) example_heap) =
       Inl TypeError
   \<and> patternBlockToPattern example_imported example_template_part example_categories_map =
       Inl TypeError"
  by code_simp




section \<open>The hook: properties\<close>

text \<open>
  Claim C8. For a category type that is none of \<^verbatim>\<open>TEMPLATE_PARTS\<close>, \<^verbatim>\<open>PATTERNS\<close> and
  \<^verbatim>\<open>USER_PATTERNS\<close> (it is not \<^verbatim>\<open>===\<close> to any of them; \<^verbatim>\<open>undefined\<close> is such a
  type), \<^verbatim>\<open>usePatterns\<close> returns
  \<^verbatim>\<open>{ patterns: EMPTY_PATTERN_LIST, isResolving: false }\<close>, the patterns being the shared
  array \<open>EMPTY_PATTERN_LIST\<close> itself and not another empty array. The options are an
  object or are left out: destructuring \<^verbatim>\<open>null\<close> throws before the category type is
  looked at.
\<close>

theorem usePatterns_other_category:
  assumes "\<not> strict_eq categoryType (TEMPLATE_PARTS d)"
    and "\<not> strict_eq categoryType (PATTERNS d)"
    and "\<not> strict_eq categoryType (USER_PATTERNS d)"
    and "opts \<noteq> JNull"
  shows "usePatterns d select categoryType cid opts =
           Inr (JObj [(''patterns'', EMPTY_PATTERN_LIST), (''isResolving'', JBool False)])"
  using assms by (simp add: usePatterns_def options_of_def Let_def)

text \<open>
  The theorem at the category types \<^verbatim>\<open>undefined\<close> and \<^verbatim>\<open>wp_template\<close>; the patterns
  returned are strictly equal to the shared array, which a new empty array is not.
\<close>

theorem usePatterns_other_category_witness:
  "usePatterns example_imported example_select JUndefined JUndefined JUndefined =
     Inr (JObj [(''patterns'', EMPTY_PATTERN_LIST), (''isResolving'', JBool False)])
   \<and> usePatterns example_imported example_select (JStr ''wp_template'') (JStr ''header'')
        (JObj [(''search'', JStr ''hero'')]) =
     Inr (JObj [(''patterns'', EMPTY_PATTERN_LIST), (''isResolving'', JBool False)])
   \<and> strict_eq
        (lookup_prop (JObj [(''patterns'', EMPTY_PATTERN_LIST), (''isResolving'', JBool False)])
           ''patterns'')
        EMPTY_PATTERN_LIST
   \<and> \<not> strict_eq (JArr []) EMPTY_PATTERN_LIST"
  using usePatterns_other_category [of JUndefined example_imported JUndefined example_select JUndefined]
    usePatterns_other_category [of "JStr ''wp_template''" example_imported
      "JObj [(''search'', JStr ''hero'')]" example_select "JStr ''header''"]
  by (simp add: example_imported_def strict_eq_def lookup_or_undefined_def)

end
